theory Spec2Isabelle
  imports Main "HOL-Library.FSet" "HOL-Library.Word"
begin

section \<open>Data handled by the folder coordinator\<close>

text \<open>
  The coordinator of one synchronised folder is the class \<open>FolderGroup\<close> of
  \<^verbatim>\<open>src/daemon/folder/FolderGroup.cpp\<close>. Its collaborators (storages, transfer
  engines, peer sessions, the state collector) are declared in headers that are not part
  of the sources at hand; every call into them is recorded as an \<open>effect\<close>, and every
  value read from them comes from a \<open>world\<close> record.
\<close>

type_synonym blob = "8 word list"
  \<comment> \<open>\<^verbatim>\<open>blob\<close> and \<^verbatim>\<open>QByteArray\<close>: a sequence of bytes\<close>

type_synonym endpoint_type = "string \<times> 16 word"
  \<comment> \<open>\<^verbatim>\<open>QPair<QHostAddress, quint16>\<close>: address and port\<close>

type_synonym bitfield_type = "bool list"

type_synonym ptr = nat
  \<comment> \<open>\<^verbatim>\<open>RemoteFolder*\<close>, \<^verbatim>\<open>P2PFolder*\<close>: the address of a peer session object\<close>

type_synonym PathRevision = "blob \<times> int"

datatype json = JNull | JString string | JArray "json list" | JObject "(string \<times> json) list"

record Secret =
  get_type :: char
  get_Hash :: blob
  secret_string :: string

record FolderParams =
  path :: string
  system_path :: string
  secret :: Secret

record Meta =
  path_revision :: PathRevision
  chunk_hashes :: "blob list"

record SignedMeta =
  meta :: Meta
  signature :: blob

text \<open>What the coordinator reads from a peer session through its pointer.\<close>

record P2PFolder =
  digest :: blob
  endpoint :: endpoint_type
  displayName :: string
  collect_state :: json

text \<open>
  The values the coordinator obtains from its collaborators: the peer objects behind the
  pointers, \<^verbatim>\<open>ChunkStorage::make_bitfield\<close>, \<^verbatim>\<open>MetaStorage::getMeta\<close> and
  \<^verbatim>\<open>BandwidthCounter::heartbeat_json\<close>.
\<close>

record world =
  p2p :: "ptr \<Rightarrow> P2PFolder"
  make_bitfield :: "Meta \<Rightarrow> bitfield_type"
  getMeta :: "SignedMeta list"
  heartbeat_json :: json

section \<open>Signals, slots and effects\<close>

datatype qobject =
    This | Meta_storage | Chunk_storage | Uploader | Downloader
  | Meta_uploader | Meta_downloader | State_pusher | Remote ptr

text \<open>A signal as it is emitted, with its arguments.\<close>

datatype signal =
    metaAdded SignedMeta
  | chunkAdded blob
  | chunkDownloaded blob blob
  | timeout
  | handshakeSuccess
  | rcvdChoke
  | rcvdUnchoke
  | rcvdInterested
  | rcvdNotInterested
  | rcvdHaveMeta PathRevision bitfield_type
  | rcvdHaveChunk blob
  | rcvdMetaRequest PathRevision
  | rcvdMetaReply SignedMeta bitfield_type
  | rcvdBlockRequest blob "32 word" "32 word"
  | rcvdBlockReply blob "32 word" blob

text \<open>A signal as \<^verbatim>\<open>connect\<close> names it (a pointer to the member function).\<close>

datatype signal_id =
    SIG_metaAdded | SIG_chunkAdded | SIG_chunkDownloaded | SIG_timeout
  | SIG_handshakeSuccess | SIG_rcvdChoke | SIG_rcvdUnchoke | SIG_rcvdInterested
  | SIG_rcvdNotInterested | SIG_rcvdHaveMeta | SIG_rcvdHaveChunk | SIG_rcvdMetaRequest
  | SIG_rcvdMetaReply | SIG_rcvdBlockRequest | SIG_rcvdBlockReply

fun id_of :: "signal \<Rightarrow> signal_id" where
  "id_of (metaAdded _) = SIG_metaAdded"
| "id_of (chunkAdded _) = SIG_chunkAdded"
| "id_of (chunkDownloaded _ _) = SIG_chunkDownloaded"
| "id_of timeout = SIG_timeout"
| "id_of handshakeSuccess = SIG_handshakeSuccess"
| "id_of rcvdChoke = SIG_rcvdChoke"
| "id_of rcvdUnchoke = SIG_rcvdUnchoke"
| "id_of rcvdInterested = SIG_rcvdInterested"
| "id_of rcvdNotInterested = SIG_rcvdNotInterested"
| "id_of (rcvdHaveMeta _ _) = SIG_rcvdHaveMeta"
| "id_of (rcvdHaveChunk _) = SIG_rcvdHaveChunk"
| "id_of (rcvdMetaRequest _) = SIG_rcvdMetaRequest"
| "id_of (rcvdMetaReply _ _) = SIG_rcvdMetaReply"
| "id_of (rcvdBlockRequest _ _ _) = SIG_rcvdBlockRequest"
| "id_of (rcvdBlockReply _ _ _) = SIG_rcvdBlockReply"

text \<open>
  The callables that the coordinator connects: two member functions of its own, one of
  \<^verbatim>\<open>ChunkStorage\<close>, and the lambdas of the constructor, of \<^verbatim>\<open>attach\<close> and of
  \<^verbatim>\<open>handle_handshake\<close>; a lambda of a peer carries the pointer it captured.
\<close>

datatype slot =
    Slot_handle_indexed_meta
  | Lambda_chunkAdded
  | Slot_put_chunk
  | Slot_push_state
  | Lambda_handle_handshake ptr
  | Lambda_handleChoke ptr
  | Lambda_handleUnchoke ptr
  | Lambda_handle_interested ptr
  | Lambda_handle_not_interested ptr
  | Lambda_handle_have_meta ptr
  | Lambda_notifyRemoteChunk ptr
  | Lambda_handle_meta_request ptr
  | Lambda_handle_meta_reply ptr
  | Lambda_handle_block_request ptr
  | Lambda_putBlock ptr

record connection =
  sender :: qobject
  signal_of :: signal_id
  context_of :: qobject
  slot_of :: slot

text \<open>A task posted with \<^verbatim>\<open>QTimer::singleShot(0, ...)\<close>: it runs in a later turn of the event loop.\<close>

datatype task = Task_replay_index | Task_meta_uploader_handle_handshake ptr

text \<open>
  The registry as a slot connected to \<^verbatim>\<open>attached\<close> or \<^verbatim>\<open>detached\<close> sees it while the
  signal is being emitted: remotes, digests, endpoints, ready remotes.
\<close>

type_synonym registry = "ptr fset \<times> blob fset \<times> endpoint_type fset \<times> ptr fset"

datatype effect =
    QDir_mkpath string
  | StateCollector_folder_state_set blob string json
  | Emit_attached ptr registry
  | Emit_detached ptr registry
  | Downloader_notifyLocalChunk blob
  | Uploader_broadcast_chunk "ptr list" blob
  | ChunkStorage_put_chunk blob blob
  | Downloader_notifyLocalMeta SignedMeta bitfield_type
  | MetaUploader_broadcast_meta "ptr list" PathRevision bitfield_type
  | Downloader_trackRemote ptr
  | Downloader_untrackRemote ptr
  | Downloader_handleChoke ptr
  | Downloader_handleUnchoke ptr
  | Uploader_handle_interested ptr
  | Uploader_handle_not_interested ptr
  | MetaDownloader_handle_have_meta ptr PathRevision bitfield_type
  | Downloader_notifyRemoteChunk ptr blob
  | MetaUploader_handle_meta_request ptr PathRevision
  | MetaDownloader_handle_meta_reply ptr SignedMeta bitfield_type
  | Uploader_handle_block_request ptr blob "32 word" "32 word"
  | Downloader_putBlock blob "32 word" blob ptr
  | MetaUploader_handle_handshake ptr

section \<open>The coordinator's state\<close>

text \<open>
  The members of \<open>FolderGroup\<close> (the source writes them with a trailing underscore), the
  table of signal connections it has made, the tasks it has posted to the event loop, and
  the effects it has had on its collaborators, oldest first. A \<^verbatim>\<open>QSet\<close> is a finite set.
\<close>

record FolderGroup =
  m_params :: FolderParams
  m_remotes :: "ptr fset"
  m_remotes_ready :: "ptr fset"
  m_p2p_folders_digests :: "blob fset"
  m_p2p_folders_endpoints :: "endpoint_type fset"
  state_pusher_interval :: nat
  state_pusher_active :: bool
  connections :: "connection list"
  pending :: "task list"
  trace :: "effect list"

definition registry_of :: "FolderGroup \<Rightarrow> registry" where
  "registry_of fg =
     (m_remotes fg, m_p2p_folders_digests fg, m_p2p_folders_endpoints fg, m_remotes_ready fg)"

definition call :: "effect \<Rightarrow> FolderGroup \<Rightarrow> FolderGroup" where
  "call e fg = fg\<lparr>trace := trace fg @ [e]\<rparr>"

definition connect :: "qobject \<Rightarrow> signal_id \<Rightarrow> qobject \<Rightarrow> slot \<Rightarrow> FolderGroup \<Rightarrow> FolderGroup" where
  "connect sndr sg ctx sl fg =
     fg\<lparr>connections := connections fg @
          [\<lparr>sender = sndr, signal_of = sg, context_of = ctx, slot_of = sl\<rparr>]\<rparr>"

definition singleShot0 :: "task \<Rightarrow> FolderGroup \<Rightarrow> FolderGroup" where
  "singleShot0 t fg = fg\<lparr>pending := pending fg @ [t]\<rparr>"

text \<open>
  \<^verbatim>\<open>FolderGroup::remotes()\<close> is \<^verbatim>\<open>remotes_.toList()\<close>. The order in which a \<^verbatim>\<open>QSet\<close> is
  enumerated is not specified; here it is the increasing order of the pointers.
\<close>

definition remotes :: "FolderGroup \<Rightarrow> ptr list" where
  "remotes fg = sorted_list_of_fset (m_remotes fg)"

text \<open>\<^verbatim>\<open>folderid()\<close> is declared in the header; the spec has it as the hash of the secret.\<close>

definition folderid :: "FolderGroup \<Rightarrow> blob" where
  "folderid fg = get_Hash (secret (m_params fg))"

section \<open>The operations of \<open>FolderGroup\<close>\<close>

definition handle_indexed_meta :: "world \<Rightarrow> SignedMeta \<Rightarrow> FolderGroup \<Rightarrow> FolderGroup" where
  "handle_indexed_meta w smeta fg =
     (let revision = path_revision (meta smeta);
          bitfield = make_bitfield w (meta smeta);
          fg = call (Downloader_notifyLocalMeta smeta bitfield) fg;
          fg = call (MetaUploader_broadcast_meta (remotes fg) revision bitfield) fg
      in fg)"

definition handle_handshake :: "ptr \<Rightarrow> FolderGroup \<Rightarrow> FolderGroup" where
  "handle_handshake origin fg =
     (let fg = fg\<lparr>m_remotes_ready := finsert origin (m_remotes_ready fg)\<rparr>;
          fg = call (Downloader_trackRemote origin) fg;
          fg = connect (Remote origin) SIG_rcvdChoke Downloader (Lambda_handleChoke origin) fg;
          fg = connect (Remote origin) SIG_rcvdUnchoke Downloader (Lambda_handleUnchoke origin) fg;
          fg = connect (Remote origin) SIG_rcvdInterested Downloader
                 (Lambda_handle_interested origin) fg;
          fg = connect (Remote origin) SIG_rcvdNotInterested Downloader
                 (Lambda_handle_not_interested origin) fg;
          fg = connect (Remote origin) SIG_rcvdHaveMeta Meta_downloader
                 (Lambda_handle_have_meta origin) fg;
          fg = connect (Remote origin) SIG_rcvdHaveChunk Downloader
                 (Lambda_notifyRemoteChunk origin) fg;
          fg = connect (Remote origin) SIG_rcvdMetaRequest Meta_uploader
                 (Lambda_handle_meta_request origin) fg;
          fg = connect (Remote origin) SIG_rcvdMetaReply Meta_downloader
                 (Lambda_handle_meta_reply origin) fg;
          fg = connect (Remote origin) SIG_rcvdBlockRequest Uploader
                 (Lambda_handle_block_request origin) fg;
          fg = connect (Remote origin) SIG_rcvdBlockReply Downloader (Lambda_putBlock origin) fg;
          fg = singleShot0 (Task_meta_uploader_handle_handshake origin) fg
      in fg)"

definition attach :: "world \<Rightarrow> ptr \<Rightarrow> FolderGroup \<Rightarrow> bool \<times> FolderGroup" where
  "attach w remote fg =
     (if remote |\<in>| m_remotes fg
         \<or> digest (p2p w remote) |\<in>| m_p2p_folders_digests fg
         \<or> endpoint (p2p w remote) |\<in>| m_p2p_folders_endpoints fg
      then (False, fg)
      else
        let fg = fg\<lparr>m_remotes := finsert remote (m_remotes fg)\<rparr>;
            fg = fg\<lparr>m_p2p_folders_endpoints :=
                      finsert (endpoint (p2p w remote)) (m_p2p_folders_endpoints fg)\<rparr>;
            fg = fg\<lparr>m_p2p_folders_digests :=
                      finsert (digest (p2p w remote)) (m_p2p_folders_digests fg)\<rparr>;
            fg = connect (Remote remote) SIG_handshakeSuccess This
                   (Lambda_handle_handshake remote) fg;
            fg = call (Emit_attached remote (registry_of fg)) fg
        in (True, fg))"

definition detach :: "world \<Rightarrow> ptr \<Rightarrow> FolderGroup \<Rightarrow> FolderGroup" where
  "detach w remote fg =
     (if \<not> remote |\<in>| m_remotes fg then fg
      else
        let fg = call (Emit_detached remote (registry_of fg)) fg;
            fg = call (Downloader_untrackRemote remote) fg;
            fg = fg\<lparr>m_p2p_folders_digests :=
                      m_p2p_folders_digests fg |-| {|digest (p2p w remote)|}\<rparr>;
            fg = fg\<lparr>m_p2p_folders_endpoints :=
                      m_p2p_folders_endpoints fg |-| {|endpoint (p2p w remote)|}\<rparr>;
            fg = fg\<lparr>m_remotes := m_remotes fg |-| {|remote|}\<rparr>;
            fg = fg\<lparr>m_remotes_ready := m_remotes_ready fg |-| {|remote|}\<rparr>
        in fg)"

definition push_state :: "world \<Rightarrow> FolderGroup \<Rightarrow> FolderGroup" where
  "push_state w fg =
     (let peers_array = map (\<lambda>p2p_folder. collect_state (p2p w p2p_folder)) (remotes fg);
          fg = call (StateCollector_folder_state_set (folderid fg) ''peers'' (JArray peers_array)) fg;
          fg = call (StateCollector_folder_state_set (folderid fg) ''traffic_stats''
                       (heartbeat_json w)) fg
      in fg)"

text \<open>The lambda connected to \<^verbatim>\<open>ChunkStorage::chunkAdded\<close> in the constructor.\<close>

definition chunkAdded_lambda :: "blob \<Rightarrow> FolderGroup \<Rightarrow> FolderGroup" where
  "chunkAdded_lambda ct_hash fg =
     (let fg = call (Downloader_notifyLocalChunk ct_hash) fg;
          fg = call (Uploader_broadcast_chunk (remotes fg) ct_hash) fg
      in fg)"

text \<open>
  The constructor: directories, the \<open>secret\<close> entry of the state collector, the four
  connections, the state pusher (1000 ms), and the replay of the index, posted to the
  event loop. The registry of a new object is empty.
\<close>

definition FolderGroup_ctor :: "FolderParams \<Rightarrow> FolderGroup" where
  "FolderGroup_ctor params =
     (let fg = \<lparr>m_params = params, m_remotes = {||}, m_remotes_ready = {||},
                m_p2p_folders_digests = {||}, m_p2p_folders_endpoints = {||},
                state_pusher_interval = 0, state_pusher_active = False,
                connections = [], pending = [], trace = []\<rparr>;
          fg = call (QDir_mkpath (path params)) fg;
          fg = call (QDir_mkpath (system_path params)) fg;
          fg = call (StateCollector_folder_state_set (get_Hash (secret params)) ''secret''
                       (JString (secret_string (secret params)))) fg;
          fg = connect Meta_storage SIG_metaAdded This Slot_handle_indexed_meta fg;
          fg = connect Chunk_storage SIG_chunkAdded This Lambda_chunkAdded fg;
          fg = connect Downloader SIG_chunkDownloaded Chunk_storage Slot_put_chunk fg;
          fg = connect State_pusher SIG_timeout This Slot_push_state fg;
          fg = fg\<lparr>state_pusher_interval := 1000\<rparr>;
          fg = fg\<lparr>state_pusher_active := True\<rparr>;
          fg = singleShot0 Task_replay_index fg
      in fg)"

section \<open>Delivery of signals and the event loop\<close>

text \<open>
  What a connected callable does when its signal arrives. A callable is only ever
  connected to the signal whose arguments it takes, so the default branches are never
  taken by a connection that the coordinator makes.
\<close>

definition run_slot :: "world \<Rightarrow> slot \<Rightarrow> signal \<Rightarrow> FolderGroup \<Rightarrow> FolderGroup" where
  "run_slot w sl sg fg =
     (case sl of
        Slot_handle_indexed_meta \<Rightarrow>
          (case sg of metaAdded smeta \<Rightarrow> handle_indexed_meta w smeta fg | _ \<Rightarrow> fg)
      | Lambda_chunkAdded \<Rightarrow>
          (case sg of chunkAdded ct_hash \<Rightarrow> chunkAdded_lambda ct_hash fg | _ \<Rightarrow> fg)
      | Slot_put_chunk \<Rightarrow>
          (case sg of chunkDownloaded ct_hash chunk \<Rightarrow>
                        call (ChunkStorage_put_chunk ct_hash chunk) fg
                    | _ \<Rightarrow> fg)
      | Slot_push_state \<Rightarrow>
          (case sg of timeout \<Rightarrow> push_state w fg | _ \<Rightarrow> fg)
      | Lambda_handle_handshake remote \<Rightarrow>
          (case sg of handshakeSuccess \<Rightarrow> handle_handshake remote fg | _ \<Rightarrow> fg)
      | Lambda_handleChoke origin \<Rightarrow>
          (case sg of rcvdChoke \<Rightarrow> call (Downloader_handleChoke origin) fg | _ \<Rightarrow> fg)
      | Lambda_handleUnchoke origin \<Rightarrow>
          (case sg of rcvdUnchoke \<Rightarrow> call (Downloader_handleUnchoke origin) fg | _ \<Rightarrow> fg)
      | Lambda_handle_interested origin \<Rightarrow>
          (case sg of rcvdInterested \<Rightarrow> call (Uploader_handle_interested origin) fg
                    | _ \<Rightarrow> fg)
      | Lambda_handle_not_interested origin \<Rightarrow>
          (case sg of rcvdNotInterested \<Rightarrow> call (Uploader_handle_not_interested origin) fg
                    | _ \<Rightarrow> fg)
      | Lambda_handle_have_meta origin \<Rightarrow>
          (case sg of rcvdHaveMeta revision bitfield \<Rightarrow>
                        call (MetaDownloader_handle_have_meta origin revision bitfield) fg
                    | _ \<Rightarrow> fg)
      | Lambda_notifyRemoteChunk origin \<Rightarrow>
          (case sg of rcvdHaveChunk ct_hash \<Rightarrow>
                        call (Downloader_notifyRemoteChunk origin ct_hash) fg
                    | _ \<Rightarrow> fg)
      | Lambda_handle_meta_request origin \<Rightarrow>
          (case sg of rcvdMetaRequest path_rev \<Rightarrow>
                        call (MetaUploader_handle_meta_request origin path_rev) fg
                    | _ \<Rightarrow> fg)
      | Lambda_handle_meta_reply origin \<Rightarrow>
          (case sg of rcvdMetaReply smeta bitfield \<Rightarrow>
                        call (MetaDownloader_handle_meta_reply origin smeta bitfield) fg
                    | _ \<Rightarrow> fg)
      | Lambda_handle_block_request origin \<Rightarrow>
          (case sg of rcvdBlockRequest ct_hash offset sz \<Rightarrow>
                        call (Uploader_handle_block_request origin ct_hash offset sz) fg
                    | _ \<Rightarrow> fg)
      | Lambda_putBlock origin \<Rightarrow>
          (case sg of rcvdBlockReply ct_hash offset block \<Rightarrow>
                        call (Downloader_putBlock ct_hash offset block origin) fg
                    | _ \<Rightarrow> fg))"

text \<open>
  An object emits a signal: the callables connected to this signal of this object when the
  emission starts run one after the other, in the order in which they were connected.
\<close>

definition connected :: "qobject \<Rightarrow> signal_id \<Rightarrow> FolderGroup \<Rightarrow> connection list" where
  "connected sndr sg fg = filter (\<lambda>c. sender c = sndr \<and> signal_of c = sg) (connections fg)"

definition deliver :: "world \<Rightarrow> qobject \<Rightarrow> signal \<Rightarrow> FolderGroup \<Rightarrow> FolderGroup" where
  "deliver w sndr sg fg =
     fold (\<lambda>c. run_slot w (slot_of c) sg) (connected sndr (id_of sg) fg) fg"

text \<open>The two posted tasks, and one turn of the event loop, which runs the oldest of them.\<close>

fun run_task :: "world \<Rightarrow> task \<Rightarrow> FolderGroup \<Rightarrow> FolderGroup" where
  "run_task w Task_replay_index fg = fold (handle_indexed_meta w) (getMeta w) fg"
| "run_task w (Task_meta_uploader_handle_handshake origin) fg =
     call (MetaUploader_handle_handshake origin) fg"

definition event_loop_turn :: "world \<Rightarrow> FolderGroup \<Rightarrow> FolderGroup" where
  "event_loop_turn w fg =
     (case pending fg of [] \<Rightarrow> fg | t # ts \<Rightarrow> run_task w t (fg\<lparr>pending := ts\<rparr>))"

text \<open>What can happen to a coordinator, and a run of such events from a state.\<close>

datatype event = Attach ptr | Detach ptr | Emits qobject signal | Turn

fun step :: "world \<Rightarrow> event \<Rightarrow> FolderGroup \<Rightarrow> FolderGroup" where
  "step w (Attach remote) fg = snd (attach w remote fg)"
| "step w (Detach remote) fg = detach w remote fg"
| "step w (Emits sndr sg) fg = deliver w sndr sg fg"
| "step w Turn fg = event_loop_turn w fg"

definition run :: "world \<Rightarrow> event list \<Rightarrow> FolderGroup \<Rightarrow> FolderGroup" where
  "run w evs fg = fold (step w) evs fg"

section \<open>The messages that a broadcast of a chunk sends\<close>

text \<open>
  Modelled from the spec: \<^verbatim>\<open>Uploader::broadcast_chunk\<close>, whose definition is not among the
  sources at hand. The spec has \<open>broadcast_chunk(peers, ct_hash)\<close> send
  \<open>HaveChunk(ct_hash)\<close> to the peers it is given, which it wants to be the ready set, and
  notes that the source hands it \<^verbatim>\<open>remotes()\<close>, all attached peers, instead. The Uploader
  has no access to the ready set of the coordinator: it sends one message to every peer of
  its argument, in the order of the list, and the caller chooses the list.
\<close>

definition broadcast_chunk :: "ptr list \<Rightarrow> blob \<Rightarrow> (ptr \<times> blob) list" where
  "broadcast_chunk peers ct_hash = map (\<lambda>peer. (peer, ct_hash)) peers"

text \<open>The \<open>HaveChunk\<close> messages, as (receiver, chunk) pairs, that an effect sends.\<close>

definition have_chunk_sent :: "effect \<Rightarrow> (ptr \<times> blob) list" where
  "have_chunk_sent e =
     (case e of Uploader_broadcast_chunk peers ct_hash \<Rightarrow> broadcast_chunk peers ct_hash
              | _ \<Rightarrow> [])"

section \<open>Classifying events and effects\<close>

text \<open>The peer whose \<^verbatim>\<open>handshakeSuccess\<close> an event is, if it is one.\<close>

definition handshake_sender :: "event \<Rightarrow> ptr option" where
  "handshake_sender e =
     (case e of
        Emits sndr sg \<Rightarrow>
          (case sndr of
             Remote p \<Rightarrow> (case sg of handshakeSuccess \<Rightarrow> Some p | _ \<Rightarrow> None)
           | _ \<Rightarrow> None)
      | _ \<Rightarrow> None)"

text \<open>
  A run in which a peer session emits \<^verbatim>\<open>handshakeSuccess\<close> only while it is attached to the
  coordinator.
\<close>

fun handshakes_while_attached :: "world \<Rightarrow> event list \<Rightarrow> FolderGroup \<Rightarrow> bool" where
  "handshakes_while_attached w [] fg = True"
| "handshakes_while_attached w (e # es) fg =
     ((case handshake_sender e of None \<Rightarrow> True | Some p \<Rightarrow> p |\<in>| m_remotes fg)
      \<and> handshakes_while_attached w es (step w e fg))"

definition is_broadcast_meta :: "effect \<Rightarrow> bool" where
  "is_broadcast_meta e = (case e of MetaUploader_broadcast_meta _ _ _ \<Rightarrow> True | _ \<Rightarrow> False)"

text \<open>The effects of \<^verbatim>\<open>handle_indexed_meta\<close> for one signed meta when the peers are \<open>ps\<close>.\<close>

definition indexed_meta_effects :: "world \<Rightarrow> ptr list \<Rightarrow> SignedMeta \<Rightarrow> effect list" where
  "indexed_meta_effects w ps smeta =
     [Downloader_notifyLocalMeta smeta (make_bitfield w (meta smeta)),
      MetaUploader_broadcast_meta ps (path_revision (meta smeta)) (make_bitfield w (meta smeta))]"

text \<open>The connections that \<^verbatim>\<open>handle_handshake\<close> makes for a peer, in the order of the source.\<close>

definition handshake_connections :: "ptr \<Rightarrow> connection list" where
  "handshake_connections origin =
     [\<lparr>sender = Remote origin, signal_of = SIG_rcvdChoke, context_of = Downloader,
       slot_of = Lambda_handleChoke origin\<rparr>,
      \<lparr>sender = Remote origin, signal_of = SIG_rcvdUnchoke, context_of = Downloader,
       slot_of = Lambda_handleUnchoke origin\<rparr>,
      \<lparr>sender = Remote origin, signal_of = SIG_rcvdInterested, context_of = Downloader,
       slot_of = Lambda_handle_interested origin\<rparr>,
      \<lparr>sender = Remote origin, signal_of = SIG_rcvdNotInterested, context_of = Downloader,
       slot_of = Lambda_handle_not_interested origin\<rparr>,
      \<lparr>sender = Remote origin, signal_of = SIG_rcvdHaveMeta, context_of = Meta_downloader,
       slot_of = Lambda_handle_have_meta origin\<rparr>,
      \<lparr>sender = Remote origin, signal_of = SIG_rcvdHaveChunk, context_of = Downloader,
       slot_of = Lambda_notifyRemoteChunk origin\<rparr>,
      \<lparr>sender = Remote origin, signal_of = SIG_rcvdMetaRequest, context_of = Meta_uploader,
       slot_of = Lambda_handle_meta_request origin\<rparr>,
      \<lparr>sender = Remote origin, signal_of = SIG_rcvdMetaReply, context_of = Meta_downloader,
       slot_of = Lambda_handle_meta_reply origin\<rparr>,
      \<lparr>sender = Remote origin, signal_of = SIG_rcvdBlockRequest, context_of = Uploader,
       slot_of = Lambda_handle_block_request origin\<rparr>,
      \<lparr>sender = Remote origin, signal_of = SIG_rcvdBlockReply, context_of = Downloader,
       slot_of = Lambda_putBlock origin\<rparr>]"

text \<open>The connections that the constructor makes.\<close>

definition ctor_connections :: "connection list" where
  "ctor_connections =
     [\<lparr>sender = Meta_storage, signal_of = SIG_metaAdded, context_of = This,
       slot_of = Slot_handle_indexed_meta\<rparr>,
      \<lparr>sender = Chunk_storage, signal_of = SIG_chunkAdded, context_of = This,
       slot_of = Lambda_chunkAdded\<rparr>,
      \<lparr>sender = Downloader, signal_of = SIG_chunkDownloaded, context_of = Chunk_storage,
       slot_of = Slot_put_chunk\<rparr>,
      \<lparr>sender = State_pusher, signal_of = SIG_timeout, context_of = This,
       slot_of = Slot_push_state\<rparr>]"

text \<open>
  A connection whose sender is a peer session and whose callable, if it is the lambda that
  calls \<^verbatim>\<open>handle_handshake\<close>, captured that same session.
\<close>

definition peer_connection :: "connection \<Rightarrow> bool" where
  "peer_connection c =
     (case sender c of
        Remote p \<Rightarrow>
          (case slot_of c of
             Lambda_handle_handshake q \<Rightarrow> q = p
           | Slot_handle_indexed_meta \<Rightarrow> False
           | Lambda_chunkAdded \<Rightarrow> False
           | Slot_put_chunk \<Rightarrow> False
           | Slot_push_state \<Rightarrow> False
           | _ \<Rightarrow> True)
      | _ \<Rightarrow> False)"

section \<open>A concrete folder\<close>

text \<open>
  Peer sessions: 20 has the digest of 10 and another endpoint, 30 has the endpoint of 10
  and another digest, and every other pointer stands for a session that shares neither.
\<close>

definition params0 :: FolderParams where
  "params0 = \<lparr>path = ''/srv/sync'', system_path = ''/srv/sync/.librevault'',
              secret = \<lparr>get_type = CHR ''A'', get_Hash = [0x5A, 0x01],
                        secret_string = ''A5a01''\<rparr>\<rparr>"

definition peer0 :: "ptr \<Rightarrow> P2PFolder" where
  "peer0 p =
     (if p = 10 then \<lparr>digest = [0x11], endpoint = (''10.0.0.1'', 42345),
                     displayName = ''one'', collect_state = JString ''one''\<rparr>
      else if p = 20 then \<lparr>digest = [0x11], endpoint = (''10.0.0.2'', 42345),
                     displayName = ''two'', collect_state = JString ''two''\<rparr>
      else if p = 30 then \<lparr>digest = [0x33], endpoint = (''10.0.0.1'', 42345),
                     displayName = ''three'', collect_state = JString ''three''\<rparr>
      else \<lparr>digest = [0x44], endpoint = (''10.0.0.4'', 42345),
            displayName = ''four'', collect_state = JString ''four''\<rparr>)"

definition smeta0 :: "nat \<Rightarrow> SignedMeta" where
  "smeta0 n = \<lparr>meta = \<lparr>path_revision = ([of_nat n], 7), chunk_hashes = [[0xAB]]\<rparr>,
               signature = [0x01]\<rparr>"

definition world0 :: world where
  "world0 = \<lparr>p2p = peer0, make_bitfield = (\<lambda>m. map (\<lambda>_. False) (chunk_hashes m)),
             getMeta = [smeta0 2, smeta0 3], heartbeat_json = JObject []\<rparr>"

definition fg0 :: FolderGroup where
  "fg0 = FolderGroup_ctor params0"

section \<open>Invariants and bookkeeping\<close>

text \<open>
  The three indices of the registry agree: the digests and the endpoints are those of the
  attached peers, and no two attached peers share a digest or an endpoint.
\<close>

definition registry_inv :: "world \<Rightarrow> FolderGroup \<Rightarrow> bool" where
  "registry_inv w fg \<longleftrightarrow>
     m_p2p_folders_digests fg = (\<lambda>p. digest (p2p w p)) |`| m_remotes fg \<and>
     m_p2p_folders_endpoints fg = (\<lambda>p. endpoint (p2p w p)) |`| m_remotes fg \<and>
     inj_on (\<lambda>p. digest (p2p w p)) (fset (m_remotes fg)) \<and>
     inj_on (\<lambda>p. endpoint (p2p w p)) (fset (m_remotes fg))"

text \<open>
  The table of connections consists of the connections of the constructor, followed by
  connections of peer sessions.
\<close>

definition connections_inv :: "FolderGroup \<Rightarrow> bool" where
  "connections_inv fg \<longleftrightarrow>
     (\<exists>cs. connections fg = ctor_connections @ cs \<and> list_all peer_connection cs)"

text \<open>
  What a callable that runs on a signal adds to the table of connections, to the ready
  remotes and, for the peers \<open>ps\<close>, to the \<open>HaveChunk\<close> messages sent.
\<close>

definition slot_connections :: "slot \<Rightarrow> signal \<Rightarrow> connection list" where
  "slot_connections sl sg =
     (case sl of
        Lambda_handle_handshake q \<Rightarrow>
          (case sg of handshakeSuccess \<Rightarrow> handshake_connections q | _ \<Rightarrow> [])
      | _ \<Rightarrow> [])"

definition slot_ready :: "slot \<Rightarrow> signal \<Rightarrow> ptr fset" where
  "slot_ready sl sg =
     (case sl of
        Lambda_handle_handshake q \<Rightarrow> (case sg of handshakeSuccess \<Rightarrow> {|q|} | _ \<Rightarrow> {||})
      | _ \<Rightarrow> {||})"

definition slot_sent :: "slot \<Rightarrow> signal \<Rightarrow> ptr list \<Rightarrow> (ptr \<times> blob) list" where
  "slot_sent sl sg ps =
     (case sl of
        Lambda_chunkAdded \<Rightarrow>
          (case sg of chunkAdded ct_hash \<Rightarrow> map (\<lambda>peer. (peer, ct_hash)) ps | _ \<Rightarrow> [])
      | _ \<Rightarrow> [])"

text \<open>
  The chunk that an event announces (\<^verbatim>\<open>chunkAdded\<close> emitted by the chunk storage), the
  chunks announced during a run, and all \<open>HaveChunk\<close> messages sent so far.
\<close>

definition added_chunk :: "event \<Rightarrow> blob option" where
  "added_chunk e =
     (case e of
        Emits sndr sg \<Rightarrow>
          (case sndr of
             Chunk_storage \<Rightarrow> (case sg of chunkAdded ct_hash \<Rightarrow> Some ct_hash | _ \<Rightarrow> None)
           | _ \<Rightarrow> None)
      | _ \<Rightarrow> None)"

definition added_chunks :: "event list \<Rightarrow> blob list" where
  "added_chunks evs = List.map_filter added_chunk evs"

definition have_chunk_log :: "FolderGroup \<Rightarrow> (ptr \<times> blob) list" where
  "have_chunk_log fg = concat (map have_chunk_sent (trace fg))"

section \<open>Basic facts\<close>

lemma call_fields [simp]:
  "m_params (call e fg) = m_params fg"
  "m_remotes (call e fg) = m_remotes fg"
  "m_remotes_ready (call e fg) = m_remotes_ready fg"
  "m_p2p_folders_digests (call e fg) = m_p2p_folders_digests fg"
  "m_p2p_folders_endpoints (call e fg) = m_p2p_folders_endpoints fg"
  "connections (call e fg) = connections fg"
  "pending (call e fg) = pending fg"
  "trace (call e fg) = trace fg @ [e]"
  by (simp_all add: call_def)

lemma connect_fields [simp]:
  "m_params (connect a b c d fg) = m_params fg"
  "m_remotes (connect a b c d fg) = m_remotes fg"
  "m_remotes_ready (connect a b c d fg) = m_remotes_ready fg"
  "m_p2p_folders_digests (connect a b c d fg) = m_p2p_folders_digests fg"
  "m_p2p_folders_endpoints (connect a b c d fg) = m_p2p_folders_endpoints fg"
  "connections (connect a b c d fg) =
     connections fg @ [\<lparr>sender = a, signal_of = b, context_of = c, slot_of = d\<rparr>]"
  "pending (connect a b c d fg) = pending fg"
  "trace (connect a b c d fg) = trace fg"
  by (simp_all add: connect_def)

lemma singleShot0_fields [simp]:
  "m_params (singleShot0 t fg) = m_params fg"
  "m_remotes (singleShot0 t fg) = m_remotes fg"
  "m_remotes_ready (singleShot0 t fg) = m_remotes_ready fg"
  "m_p2p_folders_digests (singleShot0 t fg) = m_p2p_folders_digests fg"
  "m_p2p_folders_endpoints (singleShot0 t fg) = m_p2p_folders_endpoints fg"
  "connections (singleShot0 t fg) = connections fg"
  "pending (singleShot0 t fg) = pending fg @ [t]"
  "trace (singleShot0 t fg) = trace fg"
  by (simp_all add: singleShot0_def)

lemma remotes_call [simp]: "remotes (call e fg) = remotes fg"
  by (simp add: remotes_def)

lemma remotes_enumerates:
  "set (remotes fg) = fset (m_remotes fg)" "distinct (remotes fg)"
  "length (remotes fg) = fcard (m_remotes fg)"
  by (simp_all add: remotes_def sorted_list_of_fset.rep_eq fcard.rep_eq)

lemma handle_handshake_fields [simp]:
  "m_params (handle_handshake origin fg) = m_params fg"
  "m_remotes (handle_handshake origin fg) = m_remotes fg"
  "m_remotes_ready (handle_handshake origin fg) = finsert origin (m_remotes_ready fg)"
  "m_p2p_folders_digests (handle_handshake origin fg) = m_p2p_folders_digests fg"
  "m_p2p_folders_endpoints (handle_handshake origin fg) = m_p2p_folders_endpoints fg"
  "connections (handle_handshake origin fg) = connections fg @ handshake_connections origin"
  "pending (handle_handshake origin fg) =
     pending fg @ [Task_meta_uploader_handle_handshake origin]"
  "trace (handle_handshake origin fg) = trace fg @ [Downloader_trackRemote origin]"
  by (simp_all add: handle_handshake_def Let_def handshake_connections_def)

lemma handle_indexed_meta_fields [simp]:
  "m_params (handle_indexed_meta w smeta fg) = m_params fg"
  "m_remotes (handle_indexed_meta w smeta fg) = m_remotes fg"
  "m_remotes_ready (handle_indexed_meta w smeta fg) = m_remotes_ready fg"
  "m_p2p_folders_digests (handle_indexed_meta w smeta fg) = m_p2p_folders_digests fg"
  "m_p2p_folders_endpoints (handle_indexed_meta w smeta fg) = m_p2p_folders_endpoints fg"
  "connections (handle_indexed_meta w smeta fg) = connections fg"
  "pending (handle_indexed_meta w smeta fg) = pending fg"
  "trace (handle_indexed_meta w smeta fg) = trace fg @ indexed_meta_effects w (remotes fg) smeta"
  by (simp_all add: handle_indexed_meta_def Let_def indexed_meta_effects_def)

lemma push_state_trace:
  "trace (push_state w fg) = trace fg @
     [StateCollector_folder_state_set (folderid fg) ''peers''
        (JArray (map (\<lambda>p. collect_state (p2p w p)) (remotes fg))),
      StateCollector_folder_state_set (folderid fg) ''traffic_stats'' (heartbeat_json w)]"
  by (simp add: push_state_def Let_def folderid_def remotes_def)

lemma push_state_fields [simp]:
  "m_params (push_state w fg) = m_params fg"
  "m_remotes (push_state w fg) = m_remotes fg"
  "m_remotes_ready (push_state w fg) = m_remotes_ready fg"
  "m_p2p_folders_digests (push_state w fg) = m_p2p_folders_digests fg"
  "m_p2p_folders_endpoints (push_state w fg) = m_p2p_folders_endpoints fg"
  "connections (push_state w fg) = connections fg"
  "pending (push_state w fg) = pending fg"
  by (simp_all add: push_state_def Let_def)

lemma chunkAdded_lambda_fields [simp]:
  "m_params (chunkAdded_lambda ct fg) = m_params fg"
  "m_remotes (chunkAdded_lambda ct fg) = m_remotes fg"
  "m_remotes_ready (chunkAdded_lambda ct fg) = m_remotes_ready fg"
  "m_p2p_folders_digests (chunkAdded_lambda ct fg) = m_p2p_folders_digests fg"
  "m_p2p_folders_endpoints (chunkAdded_lambda ct fg) = m_p2p_folders_endpoints fg"
  "connections (chunkAdded_lambda ct fg) = connections fg"
  "pending (chunkAdded_lambda ct fg) = pending fg"
  "trace (chunkAdded_lambda ct fg) =
     trace fg @ [Downloader_notifyLocalChunk ct, Uploader_broadcast_chunk (remotes fg) ct]"
  by (simp_all add: chunkAdded_lambda_def Let_def)

lemma attach_fields:
  "fst (attach w p fg) \<Longrightarrow> m_remotes (snd (attach w p fg)) = finsert p (m_remotes fg)"
  "fst (attach w p fg) \<Longrightarrow> m_p2p_folders_digests (snd (attach w p fg)) =
     finsert (digest (p2p w p)) (m_p2p_folders_digests fg)"
  "fst (attach w p fg) \<Longrightarrow> m_p2p_folders_endpoints (snd (attach w p fg)) =
     finsert (endpoint (p2p w p)) (m_p2p_folders_endpoints fg)"
  "fst (attach w p fg) \<Longrightarrow> connections (snd (attach w p fg)) = connections fg @
     [\<lparr>sender = Remote p, signal_of = SIG_handshakeSuccess, context_of = This,
       slot_of = Lambda_handle_handshake p\<rparr>]"
  "m_remotes_ready (snd (attach w p fg)) = m_remotes_ready fg"
  "pending (snd (attach w p fg)) = pending fg"
  "m_params (snd (attach w p fg)) = m_params fg"
  by (simp_all add: attach_def Let_def split: if_splits)

lemma attach_rejected: "\<not> fst (attach w p fg) \<Longrightarrow> snd (attach w p fg) = fg"
  by (auto simp: attach_def Let_def split: if_splits)

lemma attach_admitted:
  "fst (attach w p fg) \<longleftrightarrow> \<not> (p |\<in>| m_remotes fg
      \<or> digest (p2p w p) |\<in>| m_p2p_folders_digests fg
      \<or> endpoint (p2p w p) |\<in>| m_p2p_folders_endpoints fg)"
  by (simp add: attach_def Let_def)

lemma detach_fields:
  "p |\<in>| m_remotes fg \<Longrightarrow> m_remotes (detach w p fg) = m_remotes fg |-| {|p|}"
  "p |\<in>| m_remotes fg \<Longrightarrow> m_remotes_ready (detach w p fg) = m_remotes_ready fg |-| {|p|}"
  "p |\<in>| m_remotes fg \<Longrightarrow> m_p2p_folders_digests (detach w p fg) =
     m_p2p_folders_digests fg |-| {|digest (p2p w p)|}"
  "p |\<in>| m_remotes fg \<Longrightarrow> m_p2p_folders_endpoints (detach w p fg) =
     m_p2p_folders_endpoints fg |-| {|endpoint (p2p w p)|}"
  "connections (detach w p fg) = connections fg"
  "pending (detach w p fg) = pending fg"
  "m_params (detach w p fg) = m_params fg"
  "p |\<notin>| m_remotes fg \<Longrightarrow> detach w p fg = fg"
  by (simp_all add: detach_def Let_def)

lemma ctor_fields:
  "m_remotes (FolderGroup_ctor params) = {||}"
  "m_remotes_ready (FolderGroup_ctor params) = {||}"
  "m_p2p_folders_digests (FolderGroup_ctor params) = {||}"
  "m_p2p_folders_endpoints (FolderGroup_ctor params) = {||}"
  "connections (FolderGroup_ctor params) = ctor_connections"
  "pending (FolderGroup_ctor params) = [Task_replay_index]"
  "trace (FolderGroup_ctor params) =
     [QDir_mkpath (path params), QDir_mkpath (system_path params),
      StateCollector_folder_state_set (get_Hash (secret params)) ''secret''
        (JString (secret_string (secret params)))]"
  by (simp_all add: FolderGroup_ctor_def Let_def ctor_connections_def)

subsection \<open>What delivery and the event loop leave alone\<close>

lemma run_slot_frame [simp]:
  "m_params (run_slot w sl sg fg) = m_params fg"
  "m_remotes (run_slot w sl sg fg) = m_remotes fg"
  "m_p2p_folders_digests (run_slot w sl sg fg) = m_p2p_folders_digests fg"
  "m_p2p_folders_endpoints (run_slot w sl sg fg) = m_p2p_folders_endpoints fg"
  by (simp_all add: run_slot_def split: slot.splits signal.splits)

lemma remotes_run_slot [simp]: "remotes (run_slot w sl sg fg) = remotes fg"
  by (simp add: remotes_def)

lemma fold_run_slot_frame [simp]:
  "m_params (fold (\<lambda>c. run_slot w (slot_of c) sg) cs fg) = m_params fg"
  "m_remotes (fold (\<lambda>c. run_slot w (slot_of c) sg) cs fg) = m_remotes fg"
  "m_p2p_folders_digests (fold (\<lambda>c. run_slot w (slot_of c) sg) cs fg) = m_p2p_folders_digests fg"
  "m_p2p_folders_endpoints (fold (\<lambda>c. run_slot w (slot_of c) sg) cs fg) =
     m_p2p_folders_endpoints fg"
  by (induction cs arbitrary: fg) simp_all

lemma fold_handle_indexed_meta_fields [simp]:
  "m_params (fold (handle_indexed_meta w) ms fg) = m_params fg"
  "m_remotes (fold (handle_indexed_meta w) ms fg) = m_remotes fg"
  "m_remotes_ready (fold (handle_indexed_meta w) ms fg) = m_remotes_ready fg"
  "m_p2p_folders_digests (fold (handle_indexed_meta w) ms fg) = m_p2p_folders_digests fg"
  "m_p2p_folders_endpoints (fold (handle_indexed_meta w) ms fg) = m_p2p_folders_endpoints fg"
  "connections (fold (handle_indexed_meta w) ms fg) = connections fg"
  "pending (fold (handle_indexed_meta w) ms fg) = pending fg"
  by (induction ms arbitrary: fg) simp_all

lemma run_task_frame [simp]:
  "m_params (run_task w t fg) = m_params fg"
  "m_remotes (run_task w t fg) = m_remotes fg"
  "m_remotes_ready (run_task w t fg) = m_remotes_ready fg"
  "m_p2p_folders_digests (run_task w t fg) = m_p2p_folders_digests fg"
  "m_p2p_folders_endpoints (run_task w t fg) = m_p2p_folders_endpoints fg"
  "connections (run_task w t fg) = connections fg"
  "pending (run_task w t fg) = pending fg"
  by (cases t; simp)+

lemma event_loop_turn_frame [simp]:
  "m_params (event_loop_turn w fg) = m_params fg"
  "m_remotes (event_loop_turn w fg) = m_remotes fg"
  "m_remotes_ready (event_loop_turn w fg) = m_remotes_ready fg"
  "m_p2p_folders_digests (event_loop_turn w fg) = m_p2p_folders_digests fg"
  "m_p2p_folders_endpoints (event_loop_turn w fg) = m_p2p_folders_endpoints fg"
  "connections (event_loop_turn w fg) = connections fg"
  by (simp_all add: event_loop_turn_def split: list.splits)

lemma trace_fold_handle_indexed_meta:
  "trace (fold (handle_indexed_meta w) ms fg) =
     trace fg @ concat (map (indexed_meta_effects w (remotes fg)) ms)"
proof (induction ms arbitrary: fg)
  case Nil then show ?case by simp
next
  case (Cons m ms)
  have "remotes (handle_indexed_meta w m fg) = remotes fg" by (simp add: remotes_def)
  with Cons.IH [of "handle_indexed_meta w m fg"] show ?case by simp
qed

lemma count_broadcast_meta:
  "length (filter is_broadcast_meta (concat (map (indexed_meta_effects w ps) ms))) = length ms"
  by (induction ms) (simp_all add: indexed_meta_effects_def is_broadcast_meta_def)

lemma run_Cons: "run w (e # evs) fg = run w evs (step w e fg)"
  by (simp add: run_def)

lemma run_Nil: "run w [] fg = fg"
  by (simp add: run_def)

subsection \<open>The indices of the registry\<close>

lemma registry_inv_cong:
  "m_remotes g = m_remotes fg \<Longrightarrow> m_p2p_folders_digests g = m_p2p_folders_digests fg \<Longrightarrow>
   m_p2p_folders_endpoints g = m_p2p_folders_endpoints fg \<Longrightarrow>
   registry_inv w g = registry_inv w fg"
  by (simp add: registry_inv_def)

lemma registry_inv_attach:
  assumes "registry_inv w fg"
  shows "registry_inv w (snd (attach w p fg))"
proof (cases "fst (attach w p fg)")
  case False
  with assms show ?thesis by (simp add: attach_rejected)
next
  case True
  then have new: "digest (p2p w p) |\<notin>| m_p2p_folders_digests fg"
      "endpoint (p2p w p) |\<notin>| m_p2p_folders_endpoints fg"
    by (simp_all add: attach_admitted)
  from assms new have "digest (p2p w p) \<notin> (\<lambda>p. digest (p2p w p)) ` fset (m_remotes fg)"
    "endpoint (p2p w p) \<notin> (\<lambda>p. endpoint (p2p w p)) ` fset (m_remotes fg)"
    by (auto simp: registry_inv_def)
  with assms True show ?thesis
    by (auto simp: registry_inv_def attach_fields)
qed

lemma registry_inv_detach:
  assumes "registry_inv w fg"
  shows "registry_inv w (detach w p fg)"
proof (cases "p |\<in>| m_remotes fg")
  case False
  with assms show ?thesis by (simp add: detach_fields(8))
next
  case True
  let ?d = "\<lambda>p. digest (p2p w p)" and ?e = "\<lambda>p. endpoint (p2p w p)"
  from assms have injd: "inj_on ?d (fset (m_remotes fg))" and inje: "inj_on ?e (fset (m_remotes fg))"
    by (simp_all add: registry_inv_def)
  have d: "?d |`| (m_remotes fg |-| {|p|}) = (?d |`| m_remotes fg) |-| {|?d p|}"
    using injd True by (auto simp: inj_on_def)
  have e: "?e |`| (m_remotes fg |-| {|p|}) = (?e |`| m_remotes fg) |-| {|?e p|}"
    using inje True by (auto simp: inj_on_def)
  have "inj_on ?d (fset (m_remotes fg |-| {|p|}))" "inj_on ?e (fset (m_remotes fg |-| {|p|}))"
    using injd inje by (auto simp: inj_on_def)
  with assms True d e show ?thesis
    by (simp add: registry_inv_def detach_fields)
qed

lemma registry_inv_step: "registry_inv w fg \<Longrightarrow> registry_inv w (step w e fg)"
proof (cases e)
  case (Attach p) then show "registry_inv w fg \<Longrightarrow> ?thesis" by (simp add: registry_inv_attach)
next
  case (Detach p) then show "registry_inv w fg \<Longrightarrow> ?thesis" by (simp add: registry_inv_detach)
next
  case (Emits sndr sg)
  then show "registry_inv w fg \<Longrightarrow> ?thesis"
    by (simp add: deliver_def registry_inv_cong [of "fold f cs fg" fg for f cs])
next
  case Turn then show "registry_inv w fg \<Longrightarrow> ?thesis"
    by (simp add: registry_inv_cong [of "event_loop_turn w fg" fg])
qed

lemma registry_inv_run: "registry_inv w fg \<Longrightarrow> registry_inv w (run w evs fg)"
  unfolding run_def by (induction evs arbitrary: fg) (simp_all add: registry_inv_step)

lemma registry_inv_ctor: "registry_inv w (FolderGroup_ctor params)"
  by (simp add: registry_inv_def FolderGroup_ctor_def Let_def)

subsection \<open>The table of connections\<close>

lemma peer_connection_sender: "peer_connection c \<Longrightarrow> \<exists>p. sender c = Remote p"
  by (auto simp: peer_connection_def split: qobject.splits)

lemma peer_connection_handshake:
  "peer_connection c \<Longrightarrow> slot_of c = Lambda_handle_handshake q \<Longrightarrow> sender c = Remote q"
  by (auto simp: peer_connection_def split: qobject.splits)

lemma peer_connection_not_chunkAdded: "peer_connection c \<Longrightarrow> slot_of c \<noteq> Lambda_chunkAdded"
  by (auto simp: peer_connection_def split: qobject.splits slot.splits)

lemma handshake_connections_peer: "list_all peer_connection (handshake_connections q)"
  by (simp add: handshake_connections_def peer_connection_def)

lemma run_slot_connections:
  "connections (run_slot w sl sg fg) = connections fg @ slot_connections sl sg"
  by (simp add: run_slot_def slot_connections_def split: slot.splits signal.splits)

lemma run_slot_ready:
  "m_remotes_ready (run_slot w sl sg fg) = slot_ready sl sg |\<union>| m_remotes_ready fg"
  by (simp add: run_slot_def slot_ready_def split: slot.splits signal.splits)

lemma slot_connections_peer: "list_all peer_connection (slot_connections sl sg)"
  by (simp add: slot_connections_def handshake_connections_peer split: slot.splits signal.splits)

lemma connections_grow_fold:
  "\<exists>xs. connections (fold (\<lambda>c. run_slot w (slot_of c) sg) cs fg) = connections fg @ xs"
proof (induction cs arbitrary: fg)
  case Nil then show ?case by simp
next
  case (Cons c cs)
  from Cons.IH [of "run_slot w (slot_of c) sg fg"] show ?case
    by (auto simp: run_slot_connections)
qed

lemma connections_grow_step: "\<exists>xs. connections (step w e fg) = connections fg @ xs"
proof (cases e)
  case (Attach p)
  then show ?thesis
    by (cases "fst (attach w p fg)") (simp_all add: attach_fields attach_rejected)
next
  case (Detach p) then show ?thesis by (simp add: detach_fields)
next
  case (Emits sndr sg) then show ?thesis by (simp add: deliver_def connections_grow_fold)
next
  case Turn then show ?thesis by simp
qed

lemma connections_grow_run: "\<exists>xs. connections (run w evs fg) = connections fg @ xs"
proof (induction evs arbitrary: fg)
  case Nil then show ?case by (simp add: run_Nil)
next
  case (Cons e evs)
  from Cons.IH [of "step w e fg"] connections_grow_step [of w e fg] show ?case
    by (auto simp: run_Cons)
qed

lemma connections_inv_append:
  "connections_inv fg \<Longrightarrow> connections g = connections fg @ cs \<Longrightarrow> list_all peer_connection cs
   \<Longrightarrow> connections_inv g"
  by (auto simp: connections_inv_def)

lemma connections_inv_cong:
  "connections g = connections fg \<Longrightarrow> connections_inv g = connections_inv fg"
  by (simp add: connections_inv_def)

lemma connections_inv_fold:
  "connections_inv fg \<Longrightarrow> connections_inv (fold (\<lambda>c. run_slot w (slot_of c) sg) cs fg)"
proof (induction cs arbitrary: fg)
  case Nil then show ?case by simp
next
  case (Cons c cs)
  have "connections_inv (run_slot w (slot_of c) sg fg)"
    by (rule connections_inv_append [OF Cons.prems run_slot_connections slot_connections_peer])
  then show ?case by (simp add: Cons.IH)
qed

lemma connections_inv_step: "connections_inv fg \<Longrightarrow> connections_inv (step w e fg)"
proof (cases e)
  case (Attach p)
  assume inv: "connections_inv fg"
  show ?thesis
  proof (cases "fst (attach w p fg)")
    case True
    have "connections_inv (snd (attach w p fg))"
      by (rule connections_inv_append [OF inv attach_fields(4) [OF True]])
         (simp add: peer_connection_def)
    with Attach show ?thesis by simp
  next
    case False
    with inv Attach show ?thesis by (simp add: attach_rejected)
  qed
next
  case (Detach p)
  then show "connections_inv fg \<Longrightarrow> ?thesis"
    by (simp add: connections_inv_cong [of "detach w p fg" fg] detach_fields)
next
  case (Emits sndr sg)
  then show "connections_inv fg \<Longrightarrow> ?thesis"
    by (simp add: deliver_def connections_inv_fold)
next
  case Turn
  then show "connections_inv fg \<Longrightarrow> ?thesis"
    by (simp add: connections_inv_cong [of "event_loop_turn w fg" fg])
qed

lemma connections_inv_run: "connections_inv fg \<Longrightarrow> connections_inv (run w evs fg)"
  unfolding run_def by (induction evs arbitrary: fg) (simp_all add: connections_inv_step)

lemma connections_inv_ctor: "connections_inv (FolderGroup_ctor params)"
  by (simp add: connections_inv_def FolderGroup_ctor_def Let_def ctor_connections_def)

lemma connected_ctor:
  assumes "connections_inv fg"
  shows "connected Meta_storage SIG_metaAdded fg =
           [\<lparr>sender = Meta_storage, signal_of = SIG_metaAdded, context_of = This,
             slot_of = Slot_handle_indexed_meta\<rparr>]"
    and "connected Chunk_storage SIG_chunkAdded fg =
           [\<lparr>sender = Chunk_storage, signal_of = SIG_chunkAdded, context_of = This,
             slot_of = Lambda_chunkAdded\<rparr>]"
    and "connected State_pusher SIG_timeout fg =
           [\<lparr>sender = State_pusher, signal_of = SIG_timeout, context_of = This,
             slot_of = Slot_push_state\<rparr>]"
proof -
  from assms obtain cs where c: "connections fg = ctor_connections @ cs"
    and p: "list_all peer_connection cs"
    by (auto simp: connections_inv_def)
  have none: "\<And>x sid. (\<forall>q. x \<noteq> Remote q) \<Longrightarrow> filter (\<lambda>c. sender c = x \<and> signal_of c = sid) cs = []"
    using p by (auto simp: filter_empty_conv list_all_iff dest: peer_connection_sender)
  show "connected Meta_storage SIG_metaAdded fg =
           [\<lparr>sender = Meta_storage, signal_of = SIG_metaAdded, context_of = This,
             slot_of = Slot_handle_indexed_meta\<rparr>]"
    by (simp add: connected_def c none) (simp add: ctor_connections_def)
  show "connected Chunk_storage SIG_chunkAdded fg =
           [\<lparr>sender = Chunk_storage, signal_of = SIG_chunkAdded, context_of = This,
             slot_of = Lambda_chunkAdded\<rparr>]"
    by (simp add: connected_def c none) (simp add: ctor_connections_def)
  show "connected State_pusher SIG_timeout fg =
           [\<lparr>sender = State_pusher, signal_of = SIG_timeout, context_of = This,
             slot_of = Slot_push_state\<rparr>]"
    by (simp add: connected_def c none) (simp add: ctor_connections_def)
qed

lemma connected_append:
  "connections g = connections fg @ cs \<Longrightarrow>
   connected sndr sid g = connected sndr sid fg @ filter (\<lambda>c. sender c = sndr \<and> signal_of c = sid) cs"
  by (simp add: connected_def)

lemma no_message_subscription:
  "filter (\<lambda>c. sender c = sndr \<and> signal_of c \<noteq> SIG_handshakeSuccess) (connections fg) = [] \<Longrightarrow>
   sid \<noteq> SIG_handshakeSuccess \<Longrightarrow> connected sndr sid fg = []"
  by (auto simp: connected_def filter_empty_conv)

subsection \<open>Ready remotes\<close>

lemma ready_fold:
  "m_remotes_ready fg |\<subseteq>| m_remotes fg \<Longrightarrow>
   (\<forall>c \<in> set cs. slot_ready (slot_of c) sg |\<subseteq>| m_remotes fg) \<Longrightarrow>
   m_remotes_ready (fold (\<lambda>c. run_slot w (slot_of c) sg) cs fg) |\<subseteq>| m_remotes fg"
proof (induction cs arbitrary: fg)
  case Nil then show ?case by simp
next
  case (Cons c cs)
  have "m_remotes_ready (fold (\<lambda>c. run_slot w (slot_of c) sg) cs (run_slot w (slot_of c) sg fg))
          |\<subseteq>| m_remotes (run_slot w (slot_of c) sg fg)"
    by (rule Cons.IH) (use Cons.prems in \<open>simp_all add: run_slot_ready\<close>)
  then show ?case by simp
qed

lemma slot_ready_cases:
  "slot_ready sl sg = {||} \<or> (\<exists>q. sl = Lambda_handle_handshake q \<and> sg = handshakeSuccess
      \<and> slot_ready sl sg = {|q|})"
  by (simp add: slot_ready_def split: slot.splits signal.splits)

lemma ready_deliver:
  assumes inv: "connections_inv fg" and sub: "m_remotes_ready fg |\<subseteq>| m_remotes fg"
    and ok: "case handshake_sender (Emits sndr sg) of None \<Rightarrow> True | Some p \<Rightarrow> p |\<in>| m_remotes fg"
  shows "m_remotes_ready (deliver w sndr sg fg) |\<subseteq>| m_remotes (deliver w sndr sg fg)"
proof -
  from inv obtain cs where c: "connections fg = ctor_connections @ cs"
    and p: "list_all peer_connection cs"
    by (auto simp: connections_inv_def)
  have "\<forall>c \<in> set (connected sndr (id_of sg) fg). slot_ready (slot_of c) sg |\<subseteq>| m_remotes fg"
  proof
    fix x assume x: "x \<in> set (connected sndr (id_of sg) fg)"
    then have xs: "sender x = sndr" and xin: "x \<in> set ctor_connections \<or> x \<in> set cs"
      by (auto simp: connected_def c)
    from slot_ready_cases [of "slot_of x" sg]
    show "slot_ready (slot_of x) sg |\<subseteq>| m_remotes fg"
    proof
      assume "slot_ready (slot_of x) sg = {||}" then show ?thesis by simp
    next
      assume "\<exists>q. slot_of x = Lambda_handle_handshake q \<and> sg = handshakeSuccess
          \<and> slot_ready (slot_of x) sg = {|q|}"
      then obtain q where q: "slot_of x = Lambda_handle_handshake q" "sg = handshakeSuccess"
        "slot_ready (slot_of x) sg = {|q|}" by blast
      from xin q(1) have "x \<in> set cs" by (auto simp: ctor_connections_def)
      with p have "peer_connection x" by (simp add: list_all_iff)
      with q(1) xs have "sndr = Remote q" by (auto dest: peer_connection_handshake)
      with ok q(2) have "q |\<in>| m_remotes fg" by (simp add: handshake_sender_def)
      with q(3) show ?thesis by simp
    qed
  qed
  with sub show ?thesis by (simp add: deliver_def ready_fold)
qed

lemma ready_step:
  assumes inv: "connections_inv fg" and sub: "m_remotes_ready fg |\<subseteq>| m_remotes fg"
    and ok: "case handshake_sender e of None \<Rightarrow> True | Some p \<Rightarrow> p |\<in>| m_remotes fg"
  shows "m_remotes_ready (step w e fg) |\<subseteq>| m_remotes (step w e fg)"
proof (cases e)
  case (Attach p)
  show ?thesis
  proof (cases "fst (attach w p fg)")
    case True with sub Attach show ?thesis by (auto simp: attach_fields)
  next
    case False with sub Attach show ?thesis by (simp add: attach_rejected)
  qed
next
  case (Detach p)
  show ?thesis
  proof (cases "p |\<in>| m_remotes fg")
    case True with sub Detach show ?thesis by (auto simp: detach_fields)
  next
    case False with sub Detach show ?thesis by (simp add: detach_fields)
  qed
next
  case (Emits sndr sg)
  with ready_deliver [OF inv sub, of sndr sg w] ok show ?thesis by simp
next
  case Turn with sub show ?thesis by simp
qed

lemma ready_run:
  "connections_inv fg \<Longrightarrow> m_remotes_ready fg |\<subseteq>| m_remotes fg \<Longrightarrow>
   handshakes_while_attached w evs fg \<Longrightarrow>
   m_remotes_ready (run w evs fg) |\<subseteq>| m_remotes (run w evs fg)"
proof (induction evs arbitrary: fg)
  case Nil then show ?case by (simp add: run_def)
next
  case (Cons e evs)
  have "m_remotes_ready (run w evs (step w e fg)) |\<subseteq>| m_remotes (run w evs (step w e fg))"
  proof (rule Cons.IH)
    show "connections_inv (step w e fg)" by (rule connections_inv_step [OF Cons.prems(1)])
    show "m_remotes_ready (step w e fg) |\<subseteq>| m_remotes (step w e fg)"
      using Cons.prems by (intro ready_step) simp_all
    show "handshakes_while_attached w evs (step w e fg)" using Cons.prems(3) by simp
  qed
  then show ?case by (simp add: run_def)
qed

subsection \<open>Posted tasks\<close>

lemma run_slot_no_replay:
  "Task_replay_index \<notin> set (pending fg) \<Longrightarrow>
   Task_replay_index \<notin> set (pending (run_slot w sl sg fg))"
  by (simp add: run_slot_def split: slot.splits signal.splits)

lemma fold_run_slot_no_replay:
  "Task_replay_index \<notin> set (pending fg) \<Longrightarrow>
   Task_replay_index \<notin> set (pending (fold (\<lambda>c. run_slot w (slot_of c) sg) cs fg))"
  by (induction cs arbitrary: fg) (simp_all add: run_slot_no_replay)

lemma step_no_replay:
  "Task_replay_index \<notin> set (pending fg) \<Longrightarrow> Task_replay_index \<notin> set (pending (step w e fg))"
  by (cases e)
     (auto simp: attach_fields detach_fields deliver_def fold_run_slot_no_replay
        event_loop_turn_def split: list.splits)

lemma run_no_replay:
  "Task_replay_index \<notin> set (pending fg) \<Longrightarrow> Task_replay_index \<notin> set (pending (run w evs fg))"
  unfolding run_def by (induction evs arbitrary: fg) (simp_all add: step_no_replay)

subsection \<open>Messages sent for chunks\<close>

lemma have_chunk_log_trace:
  "trace g = trace fg @ es \<Longrightarrow>
   have_chunk_log g = have_chunk_log fg @ concat (map have_chunk_sent es)"
  by (simp add: have_chunk_log_def)

lemma have_chunk_log_simps [simp]:
  "have_chunk_log (call e fg) = have_chunk_log fg @ have_chunk_sent e"
  "have_chunk_log (handle_handshake q fg) = have_chunk_log fg"
  "have_chunk_log (handle_indexed_meta w smeta fg) = have_chunk_log fg"
  "have_chunk_log (push_state w fg) = have_chunk_log fg"
  "have_chunk_log (chunkAdded_lambda ct fg) = have_chunk_log fg @ map (\<lambda>peer. (peer, ct)) (remotes fg)"
  by (simp_all add: have_chunk_log_def push_state_trace have_chunk_sent_def
      indexed_meta_effects_def broadcast_chunk_def)

lemma run_slot_sent:
  "have_chunk_log (run_slot w sl sg fg) = have_chunk_log fg @ slot_sent sl sg (remotes fg)"
  by (simp add: run_slot_def slot_sent_def have_chunk_sent_def
      split: slot.splits signal.splits)

lemma fold_run_slot_sent:
  "have_chunk_log (fold (\<lambda>c. run_slot w (slot_of c) sg) cs fg) =
     have_chunk_log fg @ concat (map (\<lambda>c. slot_sent (slot_of c) sg (remotes fg)) cs)"
  by (induction cs arbitrary: fg) (simp_all add: run_slot_sent)

lemma slot_sent_cases:
  "slot_sent sl sg ps = [] \<or> (\<exists>ct. sl = Lambda_chunkAdded \<and> sg = chunkAdded ct)"
  by (simp add: slot_sent_def split: slot.splits signal.splits)

lemma deliver_sent:
  assumes inv: "connections_inv fg"
  shows "have_chunk_log (deliver w sndr sg fg) =
     have_chunk_log fg @
       (case added_chunk (Emits sndr sg) of None \<Rightarrow> []
        | Some ct \<Rightarrow> map (\<lambda>peer. (peer, ct)) (remotes fg))"
proof (cases "added_chunk (Emits sndr sg)")
  case (Some ct)
  then have "sndr = Chunk_storage" "sg = chunkAdded ct"
    by (auto simp: added_chunk_def split: qobject.splits signal.splits)
  with inv Some show ?thesis
    by (simp add: deliver_def connected_ctor run_slot_def)
next
  case None
  from inv obtain cs where c: "connections fg = ctor_connections @ cs"
    and p: "list_all peer_connection cs"
    by (auto simp: connections_inv_def)
  have "slot_sent (slot_of x) sg (remotes fg) = []"
    if x: "x \<in> set (connected sndr (id_of sg) fg)" for x
  proof (rule ccontr)
    assume "slot_sent (slot_of x) sg (remotes fg) \<noteq> []"
    with slot_sent_cases [of "slot_of x" sg "remotes fg"]
    obtain ct where ct: "slot_of x = Lambda_chunkAdded" "sg = chunkAdded ct" by blast
    from x have xs: "sender x = sndr" and xin: "x \<in> set ctor_connections \<or> x \<in> set cs"
      by (auto simp: connected_def c)
    have "x \<notin> set cs"
      using p ct(1) by (auto simp: list_all_iff dest: peer_connection_not_chunkAdded)
    with xin ct(1) have "sender x = Chunk_storage"
      by (auto simp: ctor_connections_def)
    with xs ct(2) have "added_chunk (Emits sndr sg) = Some ct"
      by (simp add: added_chunk_def)
    with None show False by simp
  qed
  then have "concat (map (\<lambda>c. slot_sent (slot_of c) sg (remotes fg))
      (connected sndr (id_of sg) fg)) = []"
    by simp
  with None show ?thesis
    by (simp add: deliver_def fold_run_slot_sent)
qed

lemma fold_handle_indexed_meta_sent [simp]:
  "have_chunk_log (fold (handle_indexed_meta w) ms fg) = have_chunk_log fg"
  by (induction ms arbitrary: fg) simp_all

lemma step_sent:
  assumes inv: "connections_inv fg"
  shows "have_chunk_log (step w e fg) =
     have_chunk_log fg @
       (case added_chunk e of None \<Rightarrow> [] | Some ct \<Rightarrow> map (\<lambda>peer. (peer, ct)) (remotes fg))"
proof (cases e)
  case (Attach p)
  then show ?thesis
    by (simp add: attach_def Let_def added_chunk_def have_chunk_sent_def have_chunk_log_def)
next
  case (Detach p)
  then show ?thesis
    by (simp add: detach_def Let_def added_chunk_def have_chunk_sent_def have_chunk_log_def)
next
  case (Emits sndr sg)
  with deliver_sent [OF inv, of w sndr sg] show ?thesis by simp
next
  case Turn
  have "have_chunk_log (run_task w t g) = have_chunk_log g" for t g
    by (cases t) (simp_all add: have_chunk_sent_def)
  moreover have "have_chunk_log (fg\<lparr>pending := ts\<rparr>) = have_chunk_log fg" for ts
    by (simp add: have_chunk_log_def)
  ultimately show ?thesis using Turn
    by (simp add: event_loop_turn_def added_chunk_def split: list.splits)
qed

lemma have_chunk_log_run_distinct:
  "connections_inv fg \<Longrightarrow> distinct (have_chunk_log fg) \<Longrightarrow> distinct (added_chunks evs) \<Longrightarrow>
   snd ` set (have_chunk_log fg) \<inter> set (added_chunks evs) = {} \<Longrightarrow>
   distinct (have_chunk_log (run w evs fg))"
proof (induction evs arbitrary: fg)
  case Nil then show ?case by (simp add: run_def)
next
  case (Cons e evs)
  have inv': "connections_inv (step w e fg)" by (rule connections_inv_step [OF Cons.prems(1)])
  note st = step_sent [OF Cons.prems(1), of w e]
  have r: "run w (e # evs) fg = run w evs (step w e fg)" by (simp add: run_def)
  show ?case
  proof (cases "added_chunk e")
    case None
    then have a: "added_chunks (e # evs) = added_chunks evs"
      by (simp add: added_chunks_def)
    have "distinct (have_chunk_log (run w evs (step w e fg)))"
      by (rule Cons.IH [OF inv']) (use Cons.prems None a st in simp_all)
    then show ?thesis by (simp add: r)
  next
    case (Some ct)
    then have a: "added_chunks (e # evs) = ct # added_chunks evs"
      by (simp add: added_chunks_def)
    from Cons.prems(4) a have fresh: "ct \<notin> snd ` set (have_chunk_log fg)" by auto
    have "distinct (have_chunk_log (run w evs (step w e fg)))"
    proof (rule Cons.IH [OF inv'])
      show "distinct (have_chunk_log (step w e fg))"
        using Cons.prems(2) fresh Some st
        by (auto simp: distinct_map remotes_enumerates inj_on_def image_iff)
      show "distinct (added_chunks evs)" using Cons.prems(3) a by simp
      show "snd ` set (have_chunk_log (step w e fg)) \<inter> set (added_chunks evs) = {}"
        using Cons.prems(3,4) a Some st by (auto simp: image_iff)
    qed
    then show ?thesis by (simp add: r)
  qed
qed

subsection \<open>The concrete folder\<close>

lemma fg0_fields:
  "m_remotes fg0 = {||}" "m_remotes_ready fg0 = {||}"
  "m_p2p_folders_digests fg0 = {||}" "m_p2p_folders_endpoints fg0 = {||}"
  "connections fg0 = ctor_connections" "pending fg0 = [Task_replay_index]"
  "trace fg0 = [QDir_mkpath ''/srv/sync'', QDir_mkpath ''/srv/sync/.librevault'',
     StateCollector_folder_state_set [0x5A, 0x01] ''secret'' (JString ''A5a01'')]"
  by (simp_all add: fg0_def FolderGroup_ctor_def Let_def params0_def ctor_connections_def)

lemma world0_peers:
  "digest (p2p world0 10) = [0x11]" "endpoint (p2p world0 10) = (''10.0.0.1'', 42345)"
  "digest (p2p world0 20) = [0x11]" "endpoint (p2p world0 20) = (''10.0.0.2'', 42345)"
  "digest (p2p world0 30) = [0x33]" "endpoint (p2p world0 30) = (''10.0.0.1'', 42345)"
  "collect_state (p2p world0 10) = JString ''one''" "heartbeat_json world0 = JObject []"
  by (simp_all add: world0_def peer0_def)

lemma attach1_fg0:
  "fst (attach world0 10 fg0)"
  "m_remotes (snd (attach world0 10 fg0)) = {|10|}"
  "m_remotes_ready (snd (attach world0 10 fg0)) = {||}"
  "m_p2p_folders_digests (snd (attach world0 10 fg0)) = {|[0x11]|}"
  "m_p2p_folders_endpoints (snd (attach world0 10 fg0)) = {|(''10.0.0.1'', 42345)|}"
  by (simp_all add: attach_def Let_def fg0_fields world0_peers)

lemma s1_fields:
  "connections (snd (attach world0 10 fg0)) = ctor_connections @
     [\<lparr>sender = Remote 10, signal_of = SIG_handshakeSuccess, context_of = This,
       slot_of = Lambda_handle_handshake 10\<rparr>]"
  "pending (snd (attach world0 10 fg0)) = [Task_replay_index]"
  by (simp_all add: attach_def Let_def fg0_fields world0_peers)

lemma s2_eq:
  "step world0 (Emits (Remote 10) handshakeSuccess) (snd (attach world0 10 fg0)) =
     handle_handshake 10 (snd (attach world0 10 fg0))"
  by (simp add: deliver_def connected_def s1_fields ctor_connections_def run_slot_def)

section \<open>Attaching and detaching peers\<close>

text \<open>
  Claim C1. \<^verbatim>\<open>attach(p)\<close> returns true exactly when the handle, the digest and the endpoint
  of \<open>p\<close> are all absent from the registry. When it returns true, \<open>p\<close> has been inserted
  into the remotes, its digest into the digests and its endpoint into the endpoints, its
  \<^verbatim>\<open>handshakeSuccess\<close> has been connected to \<^verbatim>\<open>handle_handshake(p)\<close>, \<^verbatim>\<open>attached(p)\<close> has
  been emitted on the registry that contains \<open>p\<close>, and nothing else has changed; a second
  \<^verbatim>\<open>attach(p)\<close> then returns false and changes nothing. When it returns false, the
  coordinator (registry, connections, effects) is unchanged.
\<close>

theorem attach_admits_iff_absent:
  "(fst (attach w p fg) \<longleftrightarrow>
      p |\<notin>| m_remotes fg \<and> digest (p2p w p) |\<notin>| m_p2p_folders_digests fg
      \<and> endpoint (p2p w p) |\<notin>| m_p2p_folders_endpoints fg)
   \<and> (fst (attach w p fg) \<longrightarrow>
        snd (attach w p fg) =
          fg\<lparr>m_remotes := finsert p (m_remotes fg),
             m_p2p_folders_endpoints := finsert (endpoint (p2p w p)) (m_p2p_folders_endpoints fg),
             m_p2p_folders_digests := finsert (digest (p2p w p)) (m_p2p_folders_digests fg),
             connections := connections fg @
               [\<lparr>sender = Remote p, signal_of = SIG_handshakeSuccess, context_of = This,
                 slot_of = Lambda_handle_handshake p\<rparr>],
             trace := trace fg @
               [Emit_attached p
                  (finsert p (m_remotes fg),
                   finsert (digest (p2p w p)) (m_p2p_folders_digests fg),
                   finsert (endpoint (p2p w p)) (m_p2p_folders_endpoints fg),
                   m_remotes_ready fg)]\<rparr>
        \<and> attach w p (snd (attach w p fg)) = (False, snd (attach w p fg)))
   \<and> (\<not> fst (attach w p fg) \<longrightarrow> snd (attach w p fg) = fg)"
  by (simp add: attach_def Let_def call_def connect_def registry_of_def)

text \<open>
  Peer 10 is admitted by a new coordinator, a second attach of it is rejected, and so is
  peer 20, which has the digest of peer 10.
\<close>

theorem attach_admits_iff_absent_witness:
  "fst (attach world0 10 fg0)
   \<and> attach world0 10 (snd (attach world0 10 fg0)) = (False, snd (attach world0 10 fg0))
   \<and> \<not> fst (attach world0 20 (snd (attach world0 10 fg0)))
   \<and> snd (attach world0 20 (snd (attach world0 10 fg0))) = snd (attach world0 10 fg0)"
proof -
  have a: "10 |\<notin>| m_remotes fg0 \<and> digest (p2p world0 10) |\<notin>| m_p2p_folders_digests fg0
      \<and> endpoint (p2p world0 10) |\<notin>| m_p2p_folders_endpoints fg0"
    by (simp add: fg0_fields)
  have b: "digest (p2p world0 20) |\<in>| m_p2p_folders_digests (snd (attach world0 10 fg0))"
    by (simp add: attach1_fg0 world0_peers)
  show ?thesis
    using a b attach_admits_iff_absent [of world0 10 fg0]
      attach_admits_iff_absent [of world0 20 "snd (attach world0 10 fg0)"]
    by blast
qed

text \<open>
  Claim C2. \<^verbatim>\<open>detach(p)\<close> of a peer that is not attached changes nothing, so a second
  \<^verbatim>\<open>detach(p)\<close> changes nothing. For an attached peer it emits \<^verbatim>\<open>detached(p)\<close> while the
  registry is still the one before the call, then tells the Downloader to untrack \<open>p\<close>,
  and removes the digest and the endpoint of \<open>p\<close> and \<open>p\<close> itself from the digests, the
  endpoints, the remotes and the ready remotes.
\<close>

theorem detach_emits_then_removes:
  "(p |\<notin>| m_remotes fg \<longrightarrow> detach w p fg = fg)
   \<and> detach w p (detach w p fg) = detach w p fg
   \<and> (p |\<in>| m_remotes fg \<longrightarrow>
        detach w p fg =
          fg\<lparr>trace := trace fg @
               [Emit_detached p
                  (m_remotes fg, m_p2p_folders_digests fg, m_p2p_folders_endpoints fg,
                   m_remotes_ready fg),
                Downloader_untrackRemote p],
             m_p2p_folders_digests := m_p2p_folders_digests fg |-| {|digest (p2p w p)|},
             m_p2p_folders_endpoints := m_p2p_folders_endpoints fg |-| {|endpoint (p2p w p)|},
             m_remotes := m_remotes fg |-| {|p|},
             m_remotes_ready := m_remotes_ready fg |-| {|p|}\<rparr>)"
  by (simp add: detach_def Let_def call_def registry_of_def)

text \<open>Detaching peer 10 from a new coordinator, and after it has been attached.\<close>

theorem detach_emits_then_removes_witness:
  "detach world0 10 fg0 = fg0
   \<and> detach world0 10 (snd (attach world0 10 fg0)) =
       (snd (attach world0 10 fg0))
         \<lparr>trace := trace (snd (attach world0 10 fg0)) @
            [Emit_detached 10 ({|10|}, {|[0x11]|}, {|(''10.0.0.1'', 42345)|}, {||}),
             Downloader_untrackRemote 10],
          m_p2p_folders_digests := {||}, m_p2p_folders_endpoints := {||},
          m_remotes := {||}, m_remotes_ready := {||}\<rparr>"
proof -
  have a: "10 |\<in>| m_remotes (snd (attach world0 10 fg0))"
    by (simp add: attach1_fg0)
  have b: "10 |\<notin>| m_remotes fg0"
    by (simp add: fg0_fields)
  note c = world0_peers
  from b detach_emits_then_removes [of 10 fg0 world0]
  have "detach world0 10 fg0 = fg0" by blast
  moreover from a detach_emits_then_removes [of 10 "snd (attach world0 10 fg0)" world0]
  have "detach world0 10 (snd (attach world0 10 fg0)) =
       (snd (attach world0 10 fg0))
         \<lparr>trace := trace (snd (attach world0 10 fg0)) @
            [Emit_detached 10 ({|10|}, {|[0x11]|}, {|(''10.0.0.1'', 42345)|}, {||}),
             Downloader_untrackRemote 10],
          m_p2p_folders_digests := {||}, m_p2p_folders_endpoints := {||},
          m_remotes := {||}, m_remotes_ready := {||}\<rparr>"
    by (simp add: attach1_fg0 c)
  ultimately show ?thesis by simp
qed

section \<open>The indices of the registry in every reachable state\<close>

text \<open>
  Claim C3, amended. In every state that a newly constructed coordinator reaches by any
  sequence of attach and detach calls (and of signals and turns of the event loop), the
  digests are exactly the digests of the attached peers and the endpoints exactly their
  endpoints, the digest and the endpoint are bijections from the remotes onto the digests
  and onto the endpoints, so the three indices have the same number of elements; a peer
  that is in the remotes has its digest in the digests and its endpoint in the endpoints.
  The converse is true of the attached peer that owns the digest or the endpoint only: a
  peer session that is not attached can have a digest or an endpoint that is in the index.
\<close>

theorem registry_indices_in_bijection:
  "(let s = run w evs (FolderGroup_ctor params) in
      m_p2p_folders_digests s = (\<lambda>p. digest (p2p w p)) |`| m_remotes s
    \<and> m_p2p_folders_endpoints s = (\<lambda>p. endpoint (p2p w p)) |`| m_remotes s
    \<and> bij_betw (\<lambda>p. digest (p2p w p)) (fset (m_remotes s)) (fset (m_p2p_folders_digests s))
    \<and> bij_betw (\<lambda>p. endpoint (p2p w p)) (fset (m_remotes s)) (fset (m_p2p_folders_endpoints s))
    \<and> fcard (m_remotes s) = fcard (m_p2p_folders_digests s)
    \<and> fcard (m_p2p_folders_digests s) = fcard (m_p2p_folders_endpoints s)
    \<and> (p |\<in>| m_remotes s \<longrightarrow>
         digest (p2p w p) |\<in>| m_p2p_folders_digests s
         \<and> endpoint (p2p w p) |\<in>| m_p2p_folders_endpoints s))"
proof -
  define s where "s = run w evs (FolderGroup_ctor params)"
  have inv: "registry_inv w s"
    unfolding s_def by (rule registry_inv_run [OF registry_inv_ctor])
  then have d: "m_p2p_folders_digests s = (\<lambda>p. digest (p2p w p)) |`| m_remotes s"
    and e: "m_p2p_folders_endpoints s = (\<lambda>p. endpoint (p2p w p)) |`| m_remotes s"
    and injd: "inj_on (\<lambda>p. digest (p2p w p)) (fset (m_remotes s))"
    and inje: "inj_on (\<lambda>p. endpoint (p2p w p)) (fset (m_remotes s))"
    by (simp_all add: registry_inv_def)
  have bd: "bij_betw (\<lambda>p. digest (p2p w p)) (fset (m_remotes s)) (fset (m_p2p_folders_digests s))"
    using injd by (simp add: d bij_betw_def)
  have be: "bij_betw (\<lambda>p. endpoint (p2p w p)) (fset (m_remotes s))
      (fset (m_p2p_folders_endpoints s))"
    using inje by (simp add: e bij_betw_def)
  have cd: "fcard (m_remotes s) = fcard (m_p2p_folders_digests s)"
    using bij_betw_same_card [OF bd] by (simp add: fcard.rep_eq)
  have ce: "fcard (m_remotes s) = fcard (m_p2p_folders_endpoints s)"
    using bij_betw_same_card [OF be] by (simp add: fcard.rep_eq)
  have m: "p |\<in>| m_remotes s \<longrightarrow>
         digest (p2p w p) |\<in>| m_p2p_folders_digests s
         \<and> endpoint (p2p w p) |\<in>| m_p2p_folders_endpoints s"
    by (auto simp: d e)
  from d e bd be cd ce m show ?thesis
    unfolding s_def [symmetric] Let_def by simp
qed

text \<open>
  The equivalences as the spec words them fail for a rejected duplicate: once peer 10 is
  attached, peer 20 is not in the remotes, its digest is in the digests (it is the digest
  of peer 10), and its endpoint is not in the endpoints.
\<close>

theorem rejected_duplicate_counterexample:
  "20 |\<notin>| m_remotes (run world0 [Attach 10] (FolderGroup_ctor params0))
   \<and> digest (p2p world0 20) |\<in>| m_p2p_folders_digests (run world0 [Attach 10] (FolderGroup_ctor params0))
   \<and> endpoint (p2p world0 20)
       |\<notin>| m_p2p_folders_endpoints (run world0 [Attach 10] (FolderGroup_ctor params0))"
  by (simp add: run_Cons run_Nil attach1_fg0 [unfolded fg0_def] world0_peers)

text \<open>After attaching peer 10 and trying to attach peer 20.\<close>

theorem registry_indices_in_bijection_witness:
  "10 |\<in>| m_remotes (run world0 [Attach 10, Attach 20] (FolderGroup_ctor params0))
   \<and> digest (p2p world0 10)
       |\<in>| m_p2p_folders_digests (run world0 [Attach 10, Attach 20] (FolderGroup_ctor params0))
   \<and> fcard (m_remotes (run world0 [Attach 10, Attach 20] (FolderGroup_ctor params0)))
       = fcard (m_p2p_folders_digests (run world0 [Attach 10, Attach 20] (FolderGroup_ctor params0)))"
proof -
  have "\<not> fst (attach world0 20 (snd (attach world0 10 fg0)))"
    by (simp add: attach_admitted attach1_fg0 world0_peers)
  then have "run world0 [Attach 10, Attach 20] fg0 = snd (attach world0 10 fg0)"
    by (simp add: run_Cons run_Nil attach_rejected)
  then have m: "10 |\<in>| m_remotes (run world0 [Attach 10, Attach 20] (FolderGroup_ctor params0))"
    by (simp add: attach1_fg0 fg0_def [symmetric])
  from m registry_indices_in_bijection [of world0 "[Attach 10, Attach 20]" params0 10,
      unfolded Let_def]
  show ?thesis by blast
qed

section \<open>Subscriptions and detaching\<close>

text \<open>
  Claim C4, amended. \<^verbatim>\<open>detach(p)\<close> releases no subscription: the table of connections
  is the same after the call as before it, so the callables that run when an object emits
  a signal, \<open>p\<close> included, are the same after \<^verbatim>\<open>detach(p)\<close> as before. Nothing that
  happens to the coordinator removes a connection: after any run of events the table
  still starts with the connections it had. The subscription to \<^verbatim>\<open>handshakeSuccess\<close> made
  by \<^verbatim>\<open>attach\<close> and the subscriptions to the protocol messages made by
  \<^verbatim>\<open>handle_handshake\<close> stay in place, and what \<open>p\<close> emits after \<^verbatim>\<open>detach(p)\<close> is still
  delivered.
\<close>

theorem detach_keeps_subscriptions:
  "connections (detach w p fg) = connections fg
   \<and> connected sndr sid (detach w p fg) = connected sndr sid fg
   \<and> take (length (connections fg)) (connections (run w evs fg)) = connections fg"
proof -
  from connections_grow_run [of w evs fg]
  obtain cs where "connections (run w evs fg) = connections fg @ cs" by blast
  then have "take (length (connections fg)) (connections (run w evs fg)) = connections fg"
    by simp
  then show ?thesis
    by (simp add: detach_fields connected_def)
qed

text \<open>
  Peer 10 is attached, completes its handshake and is detached; a choke message that it
  emits afterwards is still handed to the Downloader.
\<close>

theorem events_after_detach_counterexample:
  "10 |\<notin>| m_remotes
      (run world0 [Attach 10, Emits (Remote 10) handshakeSuccess, Detach 10]
         (FolderGroup_ctor params0))
   \<and> trace (deliver world0 (Remote 10) rcvdChoke
        (run world0 [Attach 10, Emits (Remote 10) handshakeSuccess, Detach 10]
           (FolderGroup_ctor params0)))
     = trace (run world0 [Attach 10, Emits (Remote 10) handshakeSuccess, Detach 10]
           (FolderGroup_ctor params0)) @ [Downloader_handleChoke 10]"
proof -
  let ?s1 = "snd (attach world0 10 fg0)"
  let ?s3 = "detach world0 10 (handle_handshake 10 ?s1)"
  have r: "run world0 [Attach 10, Emits (Remote 10) handshakeSuccess, Detach 10]
      (FolderGroup_ctor params0) = ?s3"
    using s2_eq by (simp add: run_Cons run_Nil fg0_def)
  have c: "connected (Remote 10) SIG_rcvdChoke ?s3 =
      [\<lparr>sender = Remote 10, signal_of = SIG_rcvdChoke, context_of = Downloader,
        slot_of = Lambda_handleChoke 10\<rparr>]"
    by (simp add: connected_def detach_fields s1_fields ctor_connections_def
        handshake_connections_def)
  have m: "10 |\<notin>| m_remotes ?s3"
    by (simp add: detach_fields attach1_fg0)
  show ?thesis
    unfolding r using m by (simp add: deliver_def c run_slot_def)
qed

text \<open>The subscription to the handshake of peer 10 is still there after its detachment.\<close>

theorem detach_keeps_subscriptions_witness:
  "connected (Remote 10) SIG_handshakeSuccess (detach world0 10 (snd (attach world0 10 fg0))) =
     [\<lparr>sender = Remote 10, signal_of = SIG_handshakeSuccess, context_of = This,
       slot_of = Lambda_handle_handshake 10\<rparr>]"
  using detach_keeps_subscriptions [of world0 10 "snd (attach world0 10 fg0)" "Remote 10"
      SIG_handshakeSuccess "[]"]
  by (simp add: connected_def s1_fields ctor_connections_def)

section \<open>Ready remotes are attached\<close>

text \<open>
  Claim C5, amended. In every state that a newly constructed coordinator reaches by a
  sequence of attach calls, detach calls, signals and turns of the event loop in which a
  peer session emits \<^verbatim>\<open>handshakeSuccess\<close> only while it is attached, the ready remotes
  are a subset of the remotes.
\<close>

theorem ready_subset_remotes_while_attached:
  "handshakes_while_attached w evs (FolderGroup_ctor params) \<Longrightarrow>
   m_remotes_ready (run w evs (FolderGroup_ctor params))
     |\<subseteq>| m_remotes (run w evs (FolderGroup_ctor params))"
  by (rule ready_run [OF connections_inv_ctor])
     (simp_all add: FolderGroup_ctor_def Let_def)

text \<open>
  Without that condition the inclusion fails: \<^verbatim>\<open>detach\<close> leaves the subscription to
  \<^verbatim>\<open>handshakeSuccess\<close> in place and \<^verbatim>\<open>handle_handshake\<close> does not look at the remotes, so
  after attach, detach and a handshake of peer 10, the peer is ready and not attached.
\<close>

theorem ready_after_detach_counterexample:
  "10 |\<in>| m_remotes_ready
      (run world0 [Attach 10, Detach 10, Emits (Remote 10) handshakeSuccess]
         (FolderGroup_ctor params0))
   \<and> 10 |\<notin>| m_remotes
      (run world0 [Attach 10, Detach 10, Emits (Remote 10) handshakeSuccess]
         (FolderGroup_ctor params0))"
proof -
  let ?s2 = "detach world0 10 (snd (attach world0 10 fg0))"
  have c: "connected (Remote 10) SIG_handshakeSuccess ?s2 =
     [\<lparr>sender = Remote 10, signal_of = SIG_handshakeSuccess, context_of = This,
       slot_of = Lambda_handle_handshake 10\<rparr>]"
    by (simp add: connected_def detach_fields s1_fields ctor_connections_def)
  have r: "run world0 [Attach 10, Detach 10, Emits (Remote 10) handshakeSuccess]
         (FolderGroup_ctor params0) = handle_handshake 10 ?s2"
    by (simp add: run_Cons run_Nil fg0_def [symmetric] deliver_def c run_slot_def)
  show ?thesis
    unfolding r by (simp add: detach_fields attach1_fg0)
qed

text \<open>Peer 10 is attached, completes its handshake and is detached.\<close>

theorem ready_subset_remotes_while_attached_witness:
  "handshakes_while_attached world0
     [Attach 10, Emits (Remote 10) handshakeSuccess, Detach 10] (FolderGroup_ctor params0)
   \<and> m_remotes_ready
       (run world0 [Attach 10, Emits (Remote 10) handshakeSuccess, Detach 10]
          (FolderGroup_ctor params0))
     |\<subseteq>| m_remotes
       (run world0 [Attach 10, Emits (Remote 10) handshakeSuccess, Detach 10]
          (FolderGroup_ctor params0))"
proof -
  have h: "handshakes_while_attached world0
     [Attach 10, Emits (Remote 10) handshakeSuccess, Detach 10] (FolderGroup_ctor params0)"
    by (simp add: handshake_sender_def fg0_def [symmetric] attach1_fg0)
  from h ready_subset_remotes_while_attached [OF h] show ?thesis by simp
qed

section \<open>Broadcasting a new chunk\<close>

text \<open>
  Claim C6, amended. In every reachable state, when the chunk storage announces a new
  chunk, the Downloader is notified and \<open>HaveChunk\<close> for this chunk is sent to exactly
  the attached peers (the remotes at that moment), ready or not, once to each of them;
  and in a run in which every chunk is announced at most once, no \<open>HaveChunk\<close> message is
  sent twice to the same peer for the same chunk.
\<close>

theorem chunk_broadcast_goes_to_all_attached:
  "(let s = run w evs (FolderGroup_ctor params);
        s' = deliver w Chunk_storage (chunkAdded ct_hash) s
    in trace s' = trace s @
         [Downloader_notifyLocalChunk ct_hash, Uploader_broadcast_chunk (remotes s) ct_hash]
     \<and> have_chunk_log s' = have_chunk_log s @ map (\<lambda>peer. (peer, ct_hash)) (remotes s)
     \<and> set (remotes s) = fset (m_remotes s)
     \<and> distinct (map (\<lambda>peer. (peer, ct_hash)) (remotes s))
     \<and> (distinct (added_chunks evs) \<longrightarrow> distinct (have_chunk_log s)))"
proof -
  define s where "s = run w evs (FolderGroup_ctor params)"
  have "connections_inv s"
    unfolding s_def by (rule connections_inv_run [OF connections_inv_ctor])
  then have d: "deliver w Chunk_storage (chunkAdded ct_hash) s = chunkAdded_lambda ct_hash s"
    by (simp add: deliver_def connected_ctor run_slot_def)
  have i: "distinct (map (\<lambda>peer. (peer, ct_hash)) (remotes s))"
    by (simp add: distinct_map remotes_enumerates inj_on_def)
  have e: "have_chunk_log (FolderGroup_ctor params) = []"
    by (simp add: have_chunk_log_def ctor_fields have_chunk_sent_def)
  have g: "distinct (added_chunks evs) \<longrightarrow> distinct (have_chunk_log s)"
    unfolding s_def
    by (rule impI, rule have_chunk_log_run_distinct [OF connections_inv_ctor]) (simp_all add: e)
  show ?thesis
    unfolding s_def [symmetric] Let_def d
    using i g by (simp add: remotes_enumerates)
qed

text \<open>
  The receivers are not a subset of the ready remotes: peer 10 is attached and has not
  completed its handshake when the chunk is announced, and the message is sent to it.
\<close>

theorem chunk_sent_to_unready_peer_counterexample:
  "have_chunk_log
     (run world0 [Attach 10, Emits Chunk_storage (chunkAdded [0xAB])] (FolderGroup_ctor params0))
     = [(10, [0xAB])]
   \<and> 10 |\<notin>| m_remotes_ready (run world0 [Attach 10] (FolderGroup_ctor params0))"
proof -
  let ?s1 = "snd (attach world0 10 fg0)"
  have c: "connected Chunk_storage SIG_chunkAdded ?s1 =
     [\<lparr>sender = Chunk_storage, signal_of = SIG_chunkAdded, context_of = This,
       slot_of = Lambda_chunkAdded\<rparr>]"
    by (simp add: connected_def s1_fields ctor_connections_def)
  have r: "run world0 [Attach 10, Emits Chunk_storage (chunkAdded [0xAB])]
      (FolderGroup_ctor params0) = chunkAdded_lambda [0xAB] ?s1"
    by (simp add: run_Cons run_Nil fg0_def [symmetric] deliver_def c run_slot_def)
  have l: "have_chunk_log ?s1 = []"
    by (simp add: have_chunk_log_def attach_def Let_def fg0_fields world0_peers
        have_chunk_sent_def)
  have p: "remotes ?s1 = [10]"
    by (simp add: attach1_fg0 remotes_def sorted_list_of_fset.rep_eq)
  show ?thesis
    unfolding r by (simp add: l p run_Cons run_Nil fg0_def [symmetric] attach1_fg0)
qed

text \<open>Two different chunks are announced while peer 10 is attached.\<close>

theorem chunk_broadcast_goes_to_all_attached_witness:
  "distinct (added_chunks [Attach 10, Emits Chunk_storage (chunkAdded [0xAB]),
       Emits Chunk_storage (chunkAdded [0xCD])])
   \<and> distinct (have_chunk_log
       (run world0 [Attach 10, Emits Chunk_storage (chunkAdded [0xAB]),
          Emits Chunk_storage (chunkAdded [0xCD])] (FolderGroup_ctor params0)))"
proof -
  have a: "distinct (added_chunks [Attach 10, Emits Chunk_storage (chunkAdded [0xAB]),
       Emits Chunk_storage (chunkAdded [0xCD])])"
    by (simp add: added_chunks_def added_chunk_def)
  from a chunk_broadcast_goes_to_all_attached
    [of world0 "[Attach 10, Emits Chunk_storage (chunkAdded [0xAB]),
       Emits Chunk_storage (chunkAdded [0xCD])]" params0 "[]", unfolded Let_def]
  show ?thesis by blast
qed

section \<open>A new signed meta in the index\<close>

text \<open>
  Claim C7. \<^verbatim>\<open>handle_indexed_meta(smeta)\<close> computes the bitfield of the meta with the
  chunk storage, notifies the Downloader of the signed meta with this bitfield, and has
  the MetaUploader broadcast the revision and this bitfield to all attached peers, and
  does nothing else; in every reachable state, a \<^verbatim>\<open>metaAdded\<close> signal of the meta storage
  runs it, once.
\<close>

theorem handle_indexed_meta_notifies_and_broadcasts:
  "handle_indexed_meta w smeta fg =
     fg\<lparr>trace := trace fg @
        [Downloader_notifyLocalMeta smeta (make_bitfield w (meta smeta)),
         MetaUploader_broadcast_meta (remotes fg) (path_revision (meta smeta))
           (make_bitfield w (meta smeta))]\<rparr>
   \<and> set (remotes fg) = fset (m_remotes fg)
   \<and> deliver w Meta_storage (metaAdded smeta) (run w evs (FolderGroup_ctor params))
       = handle_indexed_meta w smeta (run w evs (FolderGroup_ctor params))"
proof -
  have a: "handle_indexed_meta w smeta fg =
     fg\<lparr>trace := trace fg @
        [Downloader_notifyLocalMeta smeta (make_bitfield w (meta smeta)),
         MetaUploader_broadcast_meta (remotes fg) (path_revision (meta smeta))
           (make_bitfield w (meta smeta))]\<rparr>"
    by (simp add: handle_indexed_meta_def Let_def call_def remotes_def)
  have b: "set (remotes fg) = fset (m_remotes fg)"
    by (simp add: remotes_enumerates)
  have "connections_inv (run w evs (FolderGroup_ctor params))"
    by (rule connections_inv_run [OF connections_inv_ctor])
  then have c: "deliver w Meta_storage (metaAdded smeta) (run w evs (FolderGroup_ctor params))
       = handle_indexed_meta w smeta (run w evs (FolderGroup_ctor params))"
    by (simp add: deliver_def connected_ctor run_slot_def)
  from a b c show ?thesis by blast
qed

text \<open>A meta is added while peer 10 is attached.\<close>

theorem handle_indexed_meta_notifies_and_broadcasts_witness:
  "trace (deliver world0 Meta_storage (metaAdded (smeta0 2))
      (run world0 [Attach 10] (FolderGroup_ctor params0)))
   = trace (run world0 [Attach 10] (FolderGroup_ctor params0)) @
       [Downloader_notifyLocalMeta (smeta0 2) [False],
        MetaUploader_broadcast_meta [10] ([2], 7) [False]]"
proof -
  let ?s1 = "run world0 [Attach 10] (FolderGroup_ctor params0)"
  have s: "?s1 = snd (attach world0 10 fg0)"
    by (simp add: run_Cons run_Nil fg0_def)
  have p: "remotes ?s1 = [10]"
    unfolding s by (simp add: attach1_fg0 remotes_def sorted_list_of_fset.rep_eq)
  have b: "make_bitfield world0 (meta (smeta0 2)) = [False]"
    "path_revision (meta (smeta0 2)) = ([2], 7)"
    by (simp_all add: world0_def smeta0_def)
  from handle_indexed_meta_notifies_and_broadcasts [of world0 "smeta0 2" ?s1 "[Attach 10]" params0]
  have "deliver world0 Meta_storage (metaAdded (smeta0 2)) ?s1 =
      ?s1\<lparr>trace := trace ?s1 @
        [Downloader_notifyLocalMeta (smeta0 2) (make_bitfield world0 (meta (smeta0 2))),
         MetaUploader_broadcast_meta (remotes ?s1) (path_revision (meta (smeta0 2)))
           (make_bitfield world0 (meta (smeta0 2)))]\<rparr>"
    by simp
  then show ?thesis by (simp add: p b)
qed

section \<open>The handshake of a peer\<close>

text \<open>
  Claim C8. \<^verbatim>\<open>handle_handshake(origin)\<close> marks the peer as ready, tells the Downloader to
  track it, connects the ten protocol messages of this peer (and of no other peer), and
  posts the call of \<^verbatim>\<open>MetaUploader::handle_handshake(origin)\<close> to the event loop instead of
  making it: the call is made by the turn of the event loop that runs the task, the next
  one if nothing else is pending. When the peer has no subscription to its messages yet,
  each message then goes to its engine: choke, unchoke, \<open>HaveChunk\<close> and block replies to
  the Downloader, interest changes and block requests to the Uploader, \<open>HaveMeta\<close> and
  meta replies to the MetaDownloader, meta requests to the MetaUploader. It runs when a
  peer that has just been attached emits \<^verbatim>\<open>handshakeSuccess\<close>.
\<close>

theorem handle_handshake_wires_peer:
  "handle_handshake origin fg =
     fg\<lparr>m_remotes_ready := finsert origin (m_remotes_ready fg),
        trace := trace fg @ [Downloader_trackRemote origin],
        connections := connections fg @
          [\<lparr>sender = Remote origin, signal_of = SIG_rcvdChoke, context_of = Downloader,
            slot_of = Lambda_handleChoke origin\<rparr>,
           \<lparr>sender = Remote origin, signal_of = SIG_rcvdUnchoke, context_of = Downloader,
            slot_of = Lambda_handleUnchoke origin\<rparr>,
           \<lparr>sender = Remote origin, signal_of = SIG_rcvdInterested, context_of = Downloader,
            slot_of = Lambda_handle_interested origin\<rparr>,
           \<lparr>sender = Remote origin, signal_of = SIG_rcvdNotInterested, context_of = Downloader,
            slot_of = Lambda_handle_not_interested origin\<rparr>,
           \<lparr>sender = Remote origin, signal_of = SIG_rcvdHaveMeta, context_of = Meta_downloader,
            slot_of = Lambda_handle_have_meta origin\<rparr>,
           \<lparr>sender = Remote origin, signal_of = SIG_rcvdHaveChunk, context_of = Downloader,
            slot_of = Lambda_notifyRemoteChunk origin\<rparr>,
           \<lparr>sender = Remote origin, signal_of = SIG_rcvdMetaRequest, context_of = Meta_uploader,
            slot_of = Lambda_handle_meta_request origin\<rparr>,
           \<lparr>sender = Remote origin, signal_of = SIG_rcvdMetaReply, context_of = Meta_downloader,
            slot_of = Lambda_handle_meta_reply origin\<rparr>,
           \<lparr>sender = Remote origin, signal_of = SIG_rcvdBlockRequest, context_of = Uploader,
            slot_of = Lambda_handle_block_request origin\<rparr>,
           \<lparr>sender = Remote origin, signal_of = SIG_rcvdBlockReply, context_of = Downloader,
            slot_of = Lambda_putBlock origin\<rparr>],
        pending := pending fg @ [Task_meta_uploader_handle_handshake origin]\<rparr>
   \<and> run_task w (Task_meta_uploader_handle_handshake origin) g =
       call (MetaUploader_handle_handshake origin) g
   \<and> (pending fg = [] \<longrightarrow>
        event_loop_turn w (handle_handshake origin fg) =
          call (MetaUploader_handle_handshake origin) ((handle_handshake origin fg)\<lparr>pending := []\<rparr>))
   \<and> (q \<noteq> origin \<longrightarrow>
        connected (Remote q) sid (handle_handshake origin fg) = connected (Remote q) sid fg)
   \<and> (fst (attach w origin fg) \<and> connected (Remote origin) SIG_handshakeSuccess fg = [] \<longrightarrow>
        deliver w (Remote origin) handshakeSuccess (snd (attach w origin fg)) =
          handle_handshake origin (snd (attach w origin fg)))
   \<and> (filter (\<lambda>c. sender c = Remote origin \<and> signal_of c \<noteq> SIG_handshakeSuccess)
         (connections fg) = [] \<longrightarrow>
       (let hh = handle_handshake origin fg in
          deliver w (Remote origin) rcvdChoke hh = call (Downloader_handleChoke origin) hh
        \<and> deliver w (Remote origin) rcvdUnchoke hh = call (Downloader_handleUnchoke origin) hh
        \<and> deliver w (Remote origin) rcvdInterested hh =
            call (Uploader_handle_interested origin) hh
        \<and> deliver w (Remote origin) rcvdNotInterested hh =
            call (Uploader_handle_not_interested origin) hh
        \<and> deliver w (Remote origin) (rcvdHaveMeta revision bitfield) hh =
            call (MetaDownloader_handle_have_meta origin revision bitfield) hh
        \<and> deliver w (Remote origin) (rcvdHaveChunk ct_hash) hh =
            call (Downloader_notifyRemoteChunk origin ct_hash) hh
        \<and> deliver w (Remote origin) (rcvdMetaRequest revision) hh =
            call (MetaUploader_handle_meta_request origin revision) hh
        \<and> deliver w (Remote origin) (rcvdMetaReply smeta bitfield) hh =
            call (MetaDownloader_handle_meta_reply origin smeta bitfield) hh
        \<and> deliver w (Remote origin) (rcvdBlockRequest ct_hash offset sz) hh =
            call (Uploader_handle_block_request origin ct_hash offset sz) hh
        \<and> deliver w (Remote origin) (rcvdBlockReply ct_hash offset block) hh =
            call (Downloader_putBlock ct_hash offset block origin) hh))"
proof -
  let ?hh = "handle_handshake origin fg"
  have a: "?hh = fg\<lparr>m_remotes_ready := finsert origin (m_remotes_ready fg),
        trace := trace fg @ [Downloader_trackRemote origin],
        connections := connections fg @ handshake_connections origin,
        pending := pending fg @ [Task_meta_uploader_handle_handshake origin]\<rparr>"
    by (simp add: handle_handshake_def Let_def call_def connect_def singleShot0_def
        handshake_connections_def)
  have b: "run_task w (Task_meta_uploader_handle_handshake origin) g =
       call (MetaUploader_handle_handshake origin) g"
    by simp
  have e: "pending fg = [] \<longrightarrow> event_loop_turn w ?hh =
      call (MetaUploader_handle_handshake origin) (?hh\<lparr>pending := []\<rparr>)"
    by (simp add: event_loop_turn_def)
  have c: "q \<noteq> origin \<longrightarrow> connected (Remote q) sid ?hh = connected (Remote q) sid fg"
    by (simp add: connected_append [of ?hh fg "handshake_connections origin"])
       (simp add: handshake_connections_def)
  have f: "fst (attach w origin fg) \<and> connected (Remote origin) SIG_handshakeSuccess fg = [] \<longrightarrow>
        deliver w (Remote origin) handshakeSuccess (snd (attach w origin fg)) =
          handle_handshake origin (snd (attach w origin fg))"
  proof
    assume h: "fst (attach w origin fg) \<and> connected (Remote origin) SIG_handshakeSuccess fg = []"
    then have "connected (Remote origin) SIG_handshakeSuccess (snd (attach w origin fg)) =
        [\<lparr>sender = Remote origin, signal_of = SIG_handshakeSuccess, context_of = This,
          slot_of = Lambda_handle_handshake origin\<rparr>]"
      by (simp add: connected_append [OF attach_fields(4)])
    then show "deliver w (Remote origin) handshakeSuccess (snd (attach w origin fg)) =
          handle_handshake origin (snd (attach w origin fg))"
      by (simp add: deliver_def run_slot_def)
  qed
  have d: "deliver w (Remote origin) sg ?hh =
       fold (\<lambda>c. run_slot w (slot_of c) sg)
         (filter (\<lambda>c. sender c = Remote origin \<and> signal_of c = id_of sg)
            (handshake_connections origin)) ?hh"
    if "filter (\<lambda>c. sender c = Remote origin \<and> signal_of c \<noteq> SIG_handshakeSuccess)
         (connections fg) = []" and "id_of sg \<noteq> SIG_handshakeSuccess" for sg
    using no_message_subscription [OF that]
    by (simp add: deliver_def connected_append [of ?hh fg "handshake_connections origin"])
  show ?thesis
    apply (intro conjI)
         apply (simp add: a handshake_connections_def)
        apply (rule b)
       apply (rule e)
      apply (rule c)
     apply (rule f)
    apply (rule impI)
    apply (simp only: Let_def)
    apply (intro conjI)
             apply (simp_all add: d)
             apply (simp_all add: handshake_connections_def run_slot_def)
    done
qed

text \<open>
  Peer 10 has just been attached to a new coordinator: its handshake runs
  \<^verbatim>\<open>handle_handshake\<close>, after which its interest goes to the Uploader, the subscriptions of
  peer 20 are what they were, and the next turn of the event loop, once the replay of the
  index has run, makes the call of the MetaUploader.
\<close>

theorem handle_handshake_wires_peer_witness:
  "filter (\<lambda>c. sender c = Remote 10 \<and> signal_of c \<noteq> SIG_handshakeSuccess)
     (connections (snd (attach world0 10 fg0))) = []
   \<and> deliver world0 (Remote 10) handshakeSuccess (snd (attach world0 10 fg0)) =
       handle_handshake 10 (snd (attach world0 10 fg0))
   \<and> deliver world0 (Remote 10) rcvdInterested (handle_handshake 10 (snd (attach world0 10 fg0)))
       = call (Uploader_handle_interested 10) (handle_handshake 10 (snd (attach world0 10 fg0)))
   \<and> connected (Remote 20) SIG_rcvdChoke (handle_handshake 10 (snd (attach world0 10 fg0)))
       = connected (Remote 20) SIG_rcvdChoke (snd (attach world0 10 fg0))
   \<and> event_loop_turn world0 (handle_handshake 10 ((snd (attach world0 10 fg0))\<lparr>pending := []\<rparr>))
       = call (MetaUploader_handle_handshake 10)
           ((handle_handshake 10 ((snd (attach world0 10 fg0))\<lparr>pending := []\<rparr>))\<lparr>pending := []\<rparr>)"
proof -
  have h: "filter (\<lambda>c. sender c = Remote 10 \<and> signal_of c \<noteq> SIG_handshakeSuccess)
     (connections (snd (attach world0 10 fg0))) = []"
    by (simp add: s1_fields ctor_connections_def)
  have n: "(20::nat) \<noteq> 10" by simp
  have f: "fst (attach world0 10 fg0) \<and> connected (Remote 10) SIG_handshakeSuccess fg0 = []"
    by (simp add: attach1_fg0 connected_def fg0_fields ctor_connections_def)
  have p: "pending ((snd (attach world0 10 fg0))\<lparr>pending := []\<rparr>) = []" by simp
  from h n handle_handshake_wires_peer [of 10 "snd (attach world0 10 fg0)" world0 _ 20
      SIG_rcvdChoke, unfolded Let_def]
  have 1: "deliver world0 (Remote 10) rcvdInterested (handle_handshake 10 (snd (attach world0 10 fg0)))
       = call (Uploader_handle_interested 10) (handle_handshake 10 (snd (attach world0 10 fg0)))
   \<and> connected (Remote 20) SIG_rcvdChoke (handle_handshake 10 (snd (attach world0 10 fg0)))
       = connected (Remote 20) SIG_rcvdChoke (snd (attach world0 10 fg0))"
    by blast
  from f handle_handshake_wires_peer [of 10 fg0 world0]
  have 2: "deliver world0 (Remote 10) handshakeSuccess (snd (attach world0 10 fg0)) =
       handle_handshake 10 (snd (attach world0 10 fg0))"
    by blast
  from p handle_handshake_wires_peer [of 10 "(snd (attach world0 10 fg0))\<lparr>pending := []\<rparr>" world0]
  have 3: "event_loop_turn world0 (handle_handshake 10 ((snd (attach world0 10 fg0))\<lparr>pending := []\<rparr>))
       = call (MetaUploader_handle_handshake 10)
           ((handle_handshake 10 ((snd (attach world0 10 fg0))\<lparr>pending := []\<rparr>))\<lparr>pending := []\<rparr>)"
    by blast
  from h 1 2 3 show ?thesis by blast
qed

section \<open>Replay of the index at startup\<close>

text \<open>
  Claim C9. The constructor does not feed any meta through \<^verbatim>\<open>handle_indexed_meta\<close>: its
  effects are the two directories and the \<open>secret\<close> entry, and it posts the replay to the
  event loop. The replay, when it runs, feeds every signed meta that the meta storage
  returns through \<^verbatim>\<open>handle_indexed_meta\<close>, in order, once each. The first turn of the event
  loop after the construction runs it: as many broadcasts as the meta storage has metas,
  one for each; the task is then gone, and nothing that happens later posts it again.
\<close>

theorem startup_replay_is_deferred_and_runs_once:
  "trace (FolderGroup_ctor params) =
     [QDir_mkpath (path params), QDir_mkpath (system_path params),
      StateCollector_folder_state_set (get_Hash (secret params)) ''secret''
        (JString (secret_string (secret params)))]
   \<and> pending (FolderGroup_ctor params) = [Task_replay_index]
   \<and> trace (run_task w Task_replay_index fg) =
       trace fg @ concat (map (indexed_meta_effects w (remotes fg)) (getMeta w))
   \<and> trace (event_loop_turn w (FolderGroup_ctor params)) =
       trace (FolderGroup_ctor params) @ concat (map (indexed_meta_effects w []) (getMeta w))
   \<and> length (filter is_broadcast_meta (trace (event_loop_turn w (FolderGroup_ctor params))))
       = length (getMeta w)
   \<and> pending (event_loop_turn w (FolderGroup_ctor params)) = []
   \<and> Task_replay_index \<notin> set (pending (run w evs (event_loop_turn w (FolderGroup_ctor params))))"
proof -
  let ?c = "FolderGroup_ctor params"
  have r: "remotes (?c\<lparr>pending := []\<rparr>) = []"
    by (simp add: remotes_def ctor_fields sorted_list_of_fset.rep_eq)
  have t: "trace (event_loop_turn w ?c) =
       trace ?c @ concat (map (indexed_meta_effects w []) (getMeta w))"
    by (simp add: event_loop_turn_def ctor_fields(6) trace_fold_handle_indexed_meta r)
  have p: "pending (event_loop_turn w ?c) = []"
    by (simp add: event_loop_turn_def ctor_fields(6))
  have n: "length (filter is_broadcast_meta (trace (event_loop_turn w ?c))) = length (getMeta w)"
    by (simp add: t count_broadcast_meta ctor_fields(7) is_broadcast_meta_def)
  have "Task_replay_index \<notin> set (pending (event_loop_turn w ?c))" by (simp add: p)
  then have e: "Task_replay_index \<notin> set (pending (run w evs (event_loop_turn w ?c)))"
    by (rule run_no_replay)
  show ?thesis
    using t p n e by (simp add: ctor_fields trace_fold_handle_indexed_meta)
qed

text \<open>A meta storage that holds two signed metas when the coordinator starts.\<close>

theorem startup_replay_is_deferred_and_runs_once_witness:
  "trace (event_loop_turn world0 (FolderGroup_ctor params0)) =
     trace (FolderGroup_ctor params0) @
       [Downloader_notifyLocalMeta (smeta0 2) [False],
        MetaUploader_broadcast_meta [] ([2], 7) [False],
        Downloader_notifyLocalMeta (smeta0 3) [False],
        MetaUploader_broadcast_meta [] ([3], 7) [False]]
   \<and> length (filter is_broadcast_meta (trace (event_loop_turn world0 (FolderGroup_ctor params0))))
       = 2"
proof -
  have g: "getMeta world0 = [smeta0 2, smeta0 3]"
    by (simp add: world0_def)
  have b: "make_bitfield world0 (meta (smeta0 n)) = [False]"
    "path_revision (meta (smeta0 n)) = ([of_nat n], 7)" for n
    by (simp_all add: world0_def smeta0_def)
  note t = startup_replay_is_deferred_and_runs_once [of params0 world0 fg0 "[]"]
  from t have "trace (event_loop_turn world0 (FolderGroup_ctor params0)) =
     trace (FolderGroup_ctor params0) @
       concat (map (indexed_meta_effects world0 []) (getMeta world0))"
    by blast
  moreover from t have "length (filter is_broadcast_meta
      (trace (event_loop_turn world0 (FolderGroup_ctor params0)))) = length (getMeta world0)"
    by blast
  ultimately show ?thesis
    by (simp add: g indexed_meta_effects_def b)
qed

section \<open>Publishing the state\<close>

text \<open>
  Claim C10. Every \<^verbatim>\<open>push_state\<close> hands the state collector a \<open>peers\<close> array with the
  state of each attached peer, one entry per element of the remotes, whether or not the
  peer is ready, and then sets \<open>traffic_stats\<close>.
\<close>

theorem push_state_reports_all_attached:
  "trace (push_state w fg) = trace fg @
     [StateCollector_folder_state_set (folderid fg) ''peers''
        (JArray (map (\<lambda>p. collect_state (p2p w p)) (remotes fg))),
      StateCollector_folder_state_set (folderid fg) ''traffic_stats'' (heartbeat_json w)]
   \<and> set (remotes fg) = fset (m_remotes fg) \<and> distinct (remotes fg)
   \<and> length (map (\<lambda>p. collect_state (p2p w p)) (remotes fg)) = fcard (m_remotes fg)
   \<and> remotes (fg\<lparr>m_remotes_ready := r\<rparr>) = remotes fg
   \<and> drop (length (trace fg)) (trace (push_state w (fg\<lparr>m_remotes_ready := r\<rparr>)))
       = drop (length (trace fg)) (trace (push_state w fg))"
proof -
  have same: "remotes (fg\<lparr>m_remotes_ready := r\<rparr>) = remotes fg"
    by (simp add: remotes_def)
  have t: "\<And>g. trace (push_state w g) = trace g @
     [StateCollector_folder_state_set (folderid g) ''peers''
        (JArray (map (\<lambda>p. collect_state (p2p w p)) (remotes g))),
      StateCollector_folder_state_set (folderid g) ''traffic_stats'' (heartbeat_json w)]"
    by (simp add: push_state_def Let_def folderid_def remotes_def)
  have f: "folderid (fg\<lparr>m_remotes_ready := r\<rparr>) = folderid fg"
    by (simp add: folderid_def)
  show ?thesis
    by (simp add: t same f remotes_enumerates)
qed

text \<open>Peer 10 is attached and not ready; its state is reported.\<close>

theorem push_state_reports_all_attached_witness:
  "trace (push_state world0 (snd (attach world0 10 fg0))) =
     trace (snd (attach world0 10 fg0)) @
       [StateCollector_folder_state_set [0x5A, 0x01] ''peers'' (JArray [JString ''one'']),
        StateCollector_folder_state_set [0x5A, 0x01] ''traffic_stats'' (JObject [])]
   \<and> 10 |\<notin>| m_remotes_ready (snd (attach world0 10 fg0))"
proof -
  have r: "remotes (snd (attach world0 10 fg0)) = [10]"
    by (simp add: attach1_fg0 remotes_def sorted_list_of_fset.rep_eq)
  have f: "folderid (snd (attach world0 10 fg0)) = [0x5A, 0x01]"
    by (simp add: attach_def Let_def fg0_fields folderid_def fg0_def FolderGroup_ctor_def
        params0_def)
  note c = world0_peers
  from push_state_reports_all_attached [of world0 "snd (attach world0 10 fg0)"]
  have "trace (push_state world0 (snd (attach world0 10 fg0))) =
     trace (snd (attach world0 10 fg0)) @
       [StateCollector_folder_state_set [0x5A, 0x01] ''peers'' (JArray [JString ''one'']),
        StateCollector_folder_state_set [0x5A, 0x01] ''traffic_stats'' (JObject [])]"
    by (simp add: r f c)
  then show ?thesis by (simp add: attach1_fg0)
qed

end
